theory Spec2Isabelle
  imports Main "HOL-Library.Word"
begin

unbundle bit_operations_syntax

section \<open>Machine values, exceptions and calls\<close>

text \<open>
  A C \<open>char\<close> is an 8-bit word, a C \<open>int\<close> a 32-bit word read in two's complement
  (\<open>sint\<close>, \<open><s\<close>, \<open>signed_drop_bit\<close> for \<open>>>\<close>). Buffer positions and lengths are C
  \<open>long\<close>s (64 bits) that stay far from overflow, so they are unbounded integers here.
  A double is kept as its 64 bits: no claim computes with it.
\<close>

type_synonym byte = "8 word"
type_synonym cint = "32 word"
type_synonym double = "64 word"

text \<open>
  The Ruby exceptions the extension raises with \<open>rb_raise\<close> (or that the Ruby C API raises
  for it), and \<open>Memory_fault\<close> for an access that C leaves undefined (an index outside an
  array, a write past a stack buffer, the string pointer of a value that is no string).
\<close>

datatype exn = RangeError | RuntimeError | ArgumentError | NoMethodError | Memory_fault

text \<open>
  A call on a state \<open>'s\<close>: \<open>None\<close> when it does not return (a loop that never ends, or
  the recursion bound of the model used up); otherwise the state it leaves and either the
  exception raised (\<open>Inl\<close>) or the value returned (\<open>Inr\<close>). The struct behind the state
  outlives an exception, so a raising call gives its state back as well.
\<close>

type_synonym ('a, 's) call = "'s \<Rightarrow> ((exn + 'a) \<times> 's) option"

definition ret :: "'a \<Rightarrow> ('a, 's) call" where
  "ret v s = Some (Inr v, s)"

definition raise :: "exn \<Rightarrow> ('a, 's) call" where
  "raise e s = Some (Inl e, s)"

definition thn :: "('a, 's) call \<Rightarrow> ('a \<Rightarrow> ('b, 's) call) \<Rightarrow> ('b, 's) call" where
  "thn m f s =
     (case m s of
        None \<Rightarrow> None
      | Some (Inl e, s') \<Rightarrow> Some (Inl e, s')
      | Some (Inr v, s') \<Rightarrow> f v s')"

text \<open>Integer promotion of a \<open>char\<close> (signed, as on x86).\<close>

definition promote :: "byte \<Rightarrow> cint" where
  "promote b = scast b"

section \<open>Constants of the extension\<close>

text \<open>
  Modelled from the spec: \<open>constants.h\<close> is not among the sources. The stream lengths are
  parameters, as are the size of a \<open>VALUE\<close> in bytes and the conversion of a \<open>long\<close> to
  a double; the integer range is the one of section 4.5 (Integers), the markers are those
  of sections 4.4 and 4.5.
\<close>

record platform =
  INITIAL_STREAM_LENGTH :: int
  MAX_STREAM_LENGTH :: int
  sizeof_VALUE :: nat
  long_to_double :: "int \<Rightarrow> double"

definition MIN_INTEGER :: int where
  "MIN_INTEGER = - (2 ^ 28)"

definition MAX_INTEGER :: int where
  "MAX_INTEGER = 2 ^ 28 - 1"

definition AMF0_NUMBER_MARKER :: byte where "AMF0_NUMBER_MARKER = 0x00"
definition AMF0_BOOLEAN_MARKER :: byte where "AMF0_BOOLEAN_MARKER = 0x01"
definition AMF0_STRING_MARKER :: byte where "AMF0_STRING_MARKER = 0x02"
definition AMF0_OBJECT_MARKER :: byte where "AMF0_OBJECT_MARKER = 0x03"
definition AMF0_NULL_MARKER :: byte where "AMF0_NULL_MARKER = 0x05"
definition AMF0_UNDEFINED_MARKER :: byte where "AMF0_UNDEFINED_MARKER = 0x06"
definition AMF0_REFERENCE_MARKER :: byte where "AMF0_REFERENCE_MARKER = 0x07"
definition AMF0_HASH_MARKER :: byte where "AMF0_HASH_MARKER = 0x08"
definition AMF0_OBJECT_END_MARKER :: byte where "AMF0_OBJECT_END_MARKER = 0x09"
definition AMF0_STRICT_ARRAY_MARKER :: byte where "AMF0_STRICT_ARRAY_MARKER = 0x0A"
definition AMF0_DATE_MARKER :: byte where "AMF0_DATE_MARKER = 0x0B"
definition AMF0_LONG_STRING_MARKER :: byte where "AMF0_LONG_STRING_MARKER = 0x0C"
definition AMF0_UNSUPPORTED_MARKER :: byte where "AMF0_UNSUPPORTED_MARKER = 0x0D"
definition AMF0_XML_MARKER :: byte where "AMF0_XML_MARKER = 0x0F"
definition AMF0_TYPED_OBJECT_MARKER :: byte where "AMF0_TYPED_OBJECT_MARKER = 0x10"
definition AMF0_AMF3_MARKER :: byte where "AMF0_AMF3_MARKER = 0x11"

definition AMF3_UNDEFINED_MARKER :: byte where "AMF3_UNDEFINED_MARKER = 0x00"
definition AMF3_NULL_MARKER :: byte where "AMF3_NULL_MARKER = 0x01"
definition AMF3_FALSE_MARKER :: byte where "AMF3_FALSE_MARKER = 0x02"
definition AMF3_TRUE_MARKER :: byte where "AMF3_TRUE_MARKER = 0x03"
definition AMF3_INTEGER_MARKER :: byte where "AMF3_INTEGER_MARKER = 0x04"
definition AMF3_DOUBLE_MARKER :: byte where "AMF3_DOUBLE_MARKER = 0x05"
definition AMF3_STRING_MARKER :: byte where "AMF3_STRING_MARKER = 0x06"
definition AMF3_XML_DOC_MARKER :: byte where "AMF3_XML_DOC_MARKER = 0x07"
definition AMF3_DATE_MARKER :: byte where "AMF3_DATE_MARKER = 0x08"
definition AMF3_ARRAY_MARKER :: byte where "AMF3_ARRAY_MARKER = 0x09"
definition AMF3_OBJECT_MARKER :: byte where "AMF3_OBJECT_MARKER = 0x0A"
definition AMF3_XML_MARKER :: byte where "AMF3_XML_MARKER = 0x0B"
definition AMF3_BYTE_ARRAY_MARKER :: byte where "AMF3_BYTE_ARRAY_MARKER = 0x0C"
definition AMF3_DICT_MARKER :: byte where "AMF3_DICT_MARKER = 0x11"

text \<open>The empty string and the two closing bytes: the inline header of a string of length 0.\<close>

definition AMF3_EMPTY_STRING :: byte where "AMF3_EMPTY_STRING = 0x01"
definition AMF3_CLOSE_DYNAMIC_OBJECT :: byte where "AMF3_CLOSE_DYNAMIC_OBJECT = 0x01"
definition AMF3_CLOSE_DYNAMIC_ARRAY :: byte where "AMF3_CLOSE_DYNAMIC_ARRAY = 0x01"

section \<open>The serializer's stream (serializer.c)\<close>

text \<open>
  \<open>AMF_SERIALIZER\<close>: \<open>ser_stream\<close> holds the \<open>len\<close> bytes written so far (\<open>len\<close> is its
  length), \<open>ser_size\<close> the allocated size. The \<open>st_table\<close> caches are association lists,
  newest entry first; the string and trait tables are keyed by C strings (the bytes before
  the first NUL), the object table by object id (\<open>rb_obj_id\<close>: fixed by the value for nil,
  true, false, a Fixnum, a Symbol and a Float, the identity of the object otherwise).
  \<open>serialize_opts\<close> is the instance
  variable \<open>@_serialize_opts\<close>: \<open>None\<close> for nil, otherwise whether the options hash maps
  \<open>:translate_case\<close> to true.
\<close>

datatype oid =
    Id_nil | Id_true | Id_false
  | Id_fixnum int
  | Id_symbol "byte list"
  | Id_float double
  | Id_heap nat

record AMF_SERIALIZER =
  ser_stream :: "byte list"
  ser_size :: int
  ser_depth :: int
  ser_str_cache :: "(byte list \<times> int) list"
  ser_str_index :: int
  ser_trait_cache :: "(byte list \<times> int) list"
  ser_trait_index :: int
  ser_obj_cache :: "(oid \<times> int) list"
  ser_obj_index :: int
  serialize_opts :: "bool option"

text \<open>\<open>while(needed > ser->size) ser->size *= 2;\<close> It never ends on a size that is not positive.\<close>

function grow_size :: "int \<Rightarrow> int \<Rightarrow> int option" where
  "grow_size needed sz =
     (if needed > sz then (if sz \<le> 0 then None else grow_size needed (sz * 2)) else Some sz)"
  by pat_completeness auto
termination
  by (relation "measure (\<lambda>(needed, sz). nat (needed - sz))") auto

definition ser_write :: "platform \<Rightarrow> byte list \<Rightarrow> (unit, AMF_SERIALIZER) call" where
  "ser_write P str ser =
     (let needed = int (length (ser_stream ser)) + int (length str) + 1 in
      if needed > ser_size ser then
        (case grow_size needed (ser_size ser) of
           None \<Rightarrow> None
         | Some sz \<Rightarrow>
             if sz > MAX_STREAM_LENGTH P then raise RangeError (ser\<lparr>ser_size := sz\<rparr>)
             else ret () (ser\<lparr>ser_size := sz, ser_stream := ser_stream ser @ str\<rparr>))
      else ret () (ser\<lparr>ser_stream := ser_stream ser @ str\<rparr>))"

definition ser_write_byte :: "platform \<Rightarrow> byte \<Rightarrow> (unit, AMF_SERIALIZER) call" where
  "ser_write_byte P b = ser_write P [b]"

text \<open>
  \<open>ser_write_int\<close> fills \<open>tmp\<close> and \<open>tmp_len\<close>, or raises, and then writes \<open>tmp\<close>:
  \<open>ser_write_int_tmp\<close> is the first part.
\<close>

definition ser_write_int_tmp :: "cint \<Rightarrow> exn + byte list" where
  "ser_write_int_tmp num0 =
     (let num = num0 AND 0x1fffffff in
      if num <s 0x80 then Inr [ucast num]
      else if num <s 0x4000 then
        Inr [ucast ((signed_drop_bit 7 num AND 0x7f) OR 0x80), ucast (num AND 0x7f)]
      else if num <s 0x200000 then
        Inr [ucast ((signed_drop_bit 14 num AND 0x7f) OR 0x80),
             ucast ((signed_drop_bit 7 num AND 0x7f) OR 0x80),
             ucast (num AND 0x7f)]
      else if num <s 0x40000000 then
        Inr [ucast ((signed_drop_bit 22 num AND 0x7f) OR 0x80),
             ucast ((signed_drop_bit 15 num AND 0x7f) OR 0x80),
             ucast ((signed_drop_bit 8 num AND 0x7f) OR 0x80),
             ucast (num AND 0xff)]
      else Inl RangeError)"

definition ser_write_int :: "platform \<Rightarrow> cint \<Rightarrow> (unit, AMF_SERIALIZER) call" where
  "ser_write_int P num =
     (case ser_write_int_tmp num of
        Inl e \<Rightarrow> raise e
      | Inr tmp \<Rightarrow> ser_write P tmp)"

section \<open>Ruby values of the deserializer (deserializer.c)\<close>

text \<open>
  What the deserializer builds. Arrays, hashes and mapped objects are changed after they
  are created and are reached through several references, so they live in a store and a
  value holds their address (\<open>Ref\<close>); two values are the same object when they are the
  same \<open>Ref\<close>. Strings, floats, times and byte arrays are not changed once built and are
  kept by content. A time keeps the milliseconds as read.
\<close>

datatype rvalue =
    Qnil | Qtrue | Qfalse
  | Fixnum int
  | Float double
  | Str "byte list"
  | Sym "byte list"
  | Time double
  | StringIO "byte list"
  | Ref nat

datatype hobj =
    Array "rvalue list"
  | Hash "(rvalue \<times> rvalue) list"
  | Instance "byte list" "(rvalue \<times> rvalue) list"

text \<open>An entry of the trait cache: the hash built by \<open>des3_read_object\<close>.\<close>

record traits =
  externalizable :: bool
  dynamic :: bool
  members :: "byte list list"
  class_name :: "byte list"

text \<open>
  \<open>AMF_DESERIALIZER\<close>, with the Ruby object store the caches point into. \<open>des_src\<close> is
  the position of the source StringIO (\<open>None\<close> while \<open>src\<close> is still 0). \<open>des_stream\<close> is
  the source string and \<open>des_size\<close> its length. \<open>des_outside\<close> records whether some access
  to \<open>stream\<close> used an index outside \<open>0 .. size - 1\<close>; it is not a field of the struct.
\<close>

record AMF_DESERIALIZER =
  des_src :: "int option"
  des_stream :: "byte list"
  des_pos :: int
  des_size :: int
  des_depth :: int
  des_obj_cache :: "rvalue list"
  des_str_cache :: "byte list list"
  des_trait_cache :: "traits list"
  des_heap :: "hobj list"
  des_outside :: bool

type_synonym 'a des_call = "('a, AMF_DESERIALIZER) call"

text \<open>\<open>des_alloc\<close>: the struct is zeroed. The store is the caller's.\<close>

definition des_alloc :: "hobj list \<Rightarrow> AMF_DESERIALIZER" where
  "des_alloc heap =
     \<lparr>des_src = None, des_stream = [], des_pos = 0, des_size = 0, des_depth = 0,
      des_obj_cache = [], des_str_cache = [], des_trait_cache = [],
      des_heap = heap, des_outside = False\<rparr>"

definition DES_BOUNDS_CHECK :: "int \<Rightarrow> unit des_call" where
  "DES_BOUNDS_CHECK i des =
     (if des_pos des + i > des_size des then raise RangeError des else ret () des)"

text \<open>
  \<open>des->stream[i]\<close>. A Ruby string ends with a NUL after its last byte, which is what an
  access at the index \<open>size\<close> finds; any access outside the string is recorded.
\<close>

definition stream_at :: "int \<Rightarrow> byte des_call" where
  "stream_at i des =
     ret (if 0 \<le> i \<and> i < int (length (des_stream des)) then des_stream des ! nat i else 0)
       (des\<lparr>des_outside := des_outside des \<or> i < 0 \<or> des_size des \<le> i\<rparr>)"

text \<open>The \<open>n\<close> bytes from \<open>i\<close> on, read in one go (\<open>rb_str_new\<close>).\<close>

definition stream_from :: "int \<Rightarrow> int \<Rightarrow> (byte list) des_call" where
  "stream_from i n des =
     ret (take (nat n) (drop (nat i) (des_stream des)))
       (des\<lparr>des_outside := des_outside des \<or> (0 < n \<and> (i < 0 \<or> des_size des < i + n))\<rparr>)"

definition advance :: "int \<Rightarrow> unit des_call" where
  "advance n des = ret () (des\<lparr>des_pos := des_pos des + n\<rparr>)"

definition des_read_byte :: "byte des_call" where
  "des_read_byte =
     thn (DES_BOUNDS_CHECK 1) (\<lambda>_.
     thn (advance 1) (\<lambda>_ des.
     stream_at (des_pos des - 1) des))"

definition des_read_uint16 :: "cint des_call" where
  "des_read_uint16 =
     thn (DES_BOUNDS_CHECK 2) (\<lambda>_ des.
     thn (stream_at (des_pos des)) (\<lambda>str0.
     thn (stream_at (des_pos des + 1)) (\<lambda>str1.
     thn (advance 2) (\<lambda>_.
     ret (push_bit 8 (ucast str0) OR ucast str1)))) des)"

text \<open>
  The value is computed as an \<open>int\<close> and returned as a \<open>long\<close>: a first byte of 0x80 or
  more gives a negative length.
\<close>

definition des_read_uint32 :: "int des_call" where
  "des_read_uint32 =
     thn (DES_BOUNDS_CHECK 4) (\<lambda>_ des.
     thn (stream_at (des_pos des)) (\<lambda>str0.
     thn (stream_at (des_pos des + 1)) (\<lambda>str1.
     thn (stream_at (des_pos des + 2)) (\<lambda>str2.
     thn (stream_at (des_pos des + 3)) (\<lambda>str3.
     thn (advance 4) (\<lambda>_.
     ret (sint (push_bit 24 (ucast str0) OR push_bit 16 (ucast str1)
                OR push_bit 8 (ucast str2) OR (ucast str3 :: cint)))))))) des)"

definition des_read_double :: "double des_call" where
  "des_read_double =
     thn (DES_BOUNDS_CHECK 8) (\<lambda>_ des.
     thn (stream_from (des_pos des) 8) (\<lambda>str.
     thn (advance 8) (\<lambda>_.
     ret (word_rcat str))) des)"

text \<open>
  \<open>des_read_int\<close>: the loop, then the last byte and the sign. \<open>byte & 0x80\<close> and
  \<open>byte & 0x7f\<close> act on the promoted \<open>char\<close>.
\<close>

function des_read_int_loop :: "cint \<Rightarrow> nat \<Rightarrow> byte \<Rightarrow> (cint \<times> nat \<times> byte) des_call" where
  "des_read_int_loop result byte_cnt byte des =
     (if promote byte AND 0x80 \<noteq> 0 \<and> byte_cnt < 3 then
        (case DES_BOUNDS_CHECK 1 des of
           Some (Inr _, des1) \<Rightarrow>
             (case thn (advance 1) (\<lambda>_ d. stream_at (des_pos d - 1) d) des1 of
                Some (Inr byte', des2) \<Rightarrow>
                  des_read_int_loop (push_bit 7 result OR (promote byte AND 0x7f))
                    (byte_cnt + 1) byte' des2
              | Some (Inl e, des2) \<Rightarrow> Some (Inl e, des2)
              | None \<Rightarrow> None)
         | Some (Inl e, des1) \<Rightarrow> Some (Inl e, des1)
         | None \<Rightarrow> None)
      else ret (result, byte_cnt, byte) des)"
  by pat_completeness auto
termination
  by (relation "measure (\<lambda>(result, byte_cnt, byte, des). 3 - byte_cnt)") auto

definition des_read_int :: "cint des_call" where
  "des_read_int =
     thn (DES_BOUNDS_CHECK 1) (\<lambda>_.
     thn (advance 1) (\<lambda>_ des.
     thn (stream_at (des_pos des - 1)) (\<lambda>byte.
     thn (des_read_int_loop 0 0 byte) (\<lambda>(result, byte_cnt, byte).
       let result = (if byte_cnt < 3 then push_bit 7 result OR (promote byte AND 0x7F)
                     else push_bit 8 result OR (promote byte AND 0xff));
           result = (if result AND 0x10000000 \<noteq> 0 then result - 0x20000000 else result)
       in ret result)) des))"

text \<open>\<open>rb_str_new\<close> refuses a negative length.\<close>

definition des_read_string :: "int \<Rightarrow> rvalue des_call" where
  "des_read_string len =
     thn (DES_BOUNDS_CHECK len) (\<lambda>_.
       if len < 0 then raise ArgumentError
       else (\<lambda>des.
         thn (stream_from (des_pos des) len) (\<lambda>str.
         thn (advance len) (\<lambda>_.
         ret (Str str))) des))"

text \<open>
  \<open>des_read_sym\<close> saves \<open>stream[pos+len]\<close>, puts a NUL there, interns the C string at
  \<open>stream + pos\<close> and puts the saved byte back.
\<close>

definition des_read_sym :: "int \<Rightarrow> rvalue des_call" where
  "des_read_sym len =
     thn (DES_BOUNDS_CHECK len) (\<lambda>_ des.
     thn (stream_at (des_pos des + len)) (\<lambda>end_byte.
     let i = des_pos des + len;
         terminated = (if 0 \<le> i \<and> i < int (length (des_stream des))
                       then (des_stream des)[nat i := 0] else des_stream des);
         sym = Sym (takeWhile (\<lambda>b. b \<noteq> 0) (drop (nat (des_pos des)) terminated))
     in thn (advance len) (\<lambda>_. ret sym)) des)"

text \<open>The argument of \<open>deserialize\<close>: nil, a String, a StringIO at a position, or another object.\<close>

datatype src = Src_nil | Src_String "byte list" | Src_StringIO "byte list" int | Src_other

definition des_set_src :: "src \<Rightarrow> unit des_call" where
  "des_set_src src des =
     (case (case src of
              Src_StringIO str p \<Rightarrow>
                ret () (des\<lparr>des_src := Some p, des_stream := str, des_pos := p,
                          des_size := int (length str)\<rparr>)
            | Src_String str \<Rightarrow>
                ret () (des\<lparr>des_src := Some 0, des_stream := str, des_pos := 0,
                          des_size := int (length str)\<rparr>)
            | _ \<Rightarrow> raise ArgumentError des) of
        Some (Inr _, des') \<Rightarrow>
          if des_pos des' \<ge> des_size des' then raise RangeError des' else ret () des'
      | r \<Rightarrow> r)"

section \<open>Case translation on decoding (deserializer.c)\<close>

text \<open>
  \<open>tolower\<close> and \<open>toupper\<close> in an ASCII (or UTF-8) locale, on a \<open>char\<close> read as signed.
\<close>

definition tolower :: "byte \<Rightarrow> byte" where
  "tolower c = (if 65 \<le> sint c \<and> sint c \<le> 90 then c + 32 else c)"

definition toupper :: "byte \<Rightarrow> byte" where
  "toupper c = (if 97 \<le> sint c \<and> sint c \<le> 122 then c - 32 else c)"

text \<open>The C string a \<open>char *\<close> points to: the bytes before the first NUL.\<close>

definition c_str :: "byte list \<Rightarrow> byte list" where
  "c_str s = takeWhile (\<lambda>b. b \<noteq> 0) s"

text \<open>
  The loop of \<open>snakecase_str\<close> over the C string, giving the bytes put into \<open>snake_str\<close>.
  The buffer has \<open>strlen(str) * 2\<close> bytes, and the closing NUL is written at index \<open>len\<close>:
  past the buffer when every character was upper case (and when the string is empty).
\<close>

fun snake_loop :: "byte list \<Rightarrow> byte list" where
  "snake_loop [] = []"
| "snake_loop (c # str) =
     (if 65 \<le> sint c \<and> sint c \<le> 90 then 0x5f # tolower c # snake_loop str
      else c # snake_loop str)"

definition snakecase_str :: "rvalue \<Rightarrow> exn + rvalue" where
  "snakecase_str camel_str =
     (case camel_str of
        Str s \<Rightarrow>
          (let str = c_str s; snake_str = snake_loop str in
           if length snake_str + 1 > length str * 2 then Inl Memory_fault
           else Inr (Str snake_str))
      | _ \<Rightarrow> Inl Memory_fault)"

definition lift :: "exn + 'a \<Rightarrow> ('a, 's) call" where
  "lift r = (case r of Inl e \<Rightarrow> raise e | Inr v \<Rightarrow> ret v)"

section \<open>The class mapper\<close>

text \<open>
  Modelled from the spec: the class mapper (\<open>RocketAMF::ClassMapper\<close>) is Ruby code outside
  the sources (section 6.1); it is a parameter. \<open>get_ruby_obj\<close> gives the new object for a
  class name (\<open>None\<close> for nil), \<open>get_ruby_option\<close> the \<open>translate_case\<close> option of an
  object, \<open>populate_ruby_obj\<close> the object after its properties are set, and
  \<open>read_external\<close> what the object's \<open>read_external\<close> method does with the deserializer,
  given the object and the deserializer's \<open>deserialize\<close> method.
\<close>

record class_mapper =
  get_ruby_obj :: "byte list \<Rightarrow> hobj option"
  get_ruby_option :: "hobj option \<Rightarrow> bool"
  populate_ruby_obj ::
    "hobj \<Rightarrow> (rvalue \<times> rvalue) list \<Rightarrow> (rvalue \<times> rvalue) list option \<Rightarrow> hobj"
  read_external :: "rvalue \<Rightarrow> rvalue des_call \<Rightarrow> unit des_call"

section \<open>Arrays, hashes and caches of the deserializer\<close>

definition new_obj :: "hobj \<Rightarrow> rvalue des_call" where
  "new_obj ob des = ret (Ref (length (des_heap des))) (des\<lparr>des_heap := des_heap des @ [ob]\<rparr>)"

definition rb_ary_new :: "rvalue des_call" where
  "rb_ary_new = new_obj (Array [])"

text \<open>\<open>rb_ary_new2\<close> refuses a negative capacity.\<close>

definition rb_ary_new2 :: "int \<Rightarrow> rvalue des_call" where
  "rb_ary_new2 capa = (if capa < 0 then raise ArgumentError else new_obj (Array []))"

definition rb_hash_new :: "rvalue des_call" where
  "rb_hash_new = new_obj (Hash [])"

definition rb_ary_push :: "rvalue \<Rightarrow> rvalue \<Rightarrow> unit des_call" where
  "rb_ary_push ary v des =
     (case ary of
        Ref a \<Rightarrow>
          (if a < length (des_heap des) then
             (case des_heap des ! a of
                Array xs \<Rightarrow> ret () (des\<lparr>des_heap := (des_heap des)[a := Array (xs @ [v])]\<rparr>)
              | _ \<Rightarrow> raise Memory_fault des)
           else raise Memory_fault des)
      | _ \<Rightarrow> raise Memory_fault des)"

text \<open>\<open>rb_hash_aset\<close>: a key already there keeps its place.\<close>

definition hash_store :: "(rvalue \<times> rvalue) list \<Rightarrow> rvalue \<Rightarrow> rvalue \<Rightarrow> (rvalue \<times> rvalue) list" where
  "hash_store kvs k v =
     (if k \<in> fst ` set kvs then map (\<lambda>(k', v'). if k' = k then (k', v) else (k', v')) kvs
      else kvs @ [(k, v)])"

definition rb_hash_aset :: "rvalue \<Rightarrow> rvalue \<Rightarrow> rvalue \<Rightarrow> unit des_call" where
  "rb_hash_aset hash k v des =
     (case hash of
        Ref a \<Rightarrow>
          (if a < length (des_heap des) then
             (case des_heap des ! a of
                Hash kvs \<Rightarrow> ret () (des\<lparr>des_heap := (des_heap des)[a := Hash (hash_store kvs k v)]\<rparr>)
              | _ \<Rightarrow> raise Memory_fault des)
           else raise Memory_fault des)
      | _ \<Rightarrow> raise Memory_fault des)"

text \<open>The pairs of a hash, for the class mapper.\<close>

definition hash_pairs :: "rvalue \<Rightarrow> ((rvalue \<times> rvalue) list) des_call" where
  "hash_pairs hash des =
     (case hash of
        Ref a \<Rightarrow>
          (if a < length (des_heap des) then
             (case des_heap des ! a of
                Hash kvs \<Rightarrow> ret kvs des
              | _ \<Rightarrow> raise Memory_fault des)
           else raise Memory_fault des)
      | _ \<Rightarrow> raise Memory_fault des)"

definition push_obj_cache :: "rvalue \<Rightarrow> unit des_call" where
  "push_obj_cache v des = ret () (des\<lparr>des_obj_cache := des_obj_cache des @ [v]\<rparr>)"

definition push_str_cache :: "byte list \<Rightarrow> unit des_call" where
  "push_str_cache s des = ret () (des\<lparr>des_str_cache := des_str_cache des @ [s]\<rparr>)"

definition push_trait_cache :: "traits \<Rightarrow> unit des_call" where
  "push_trait_cache t des = ret () (des\<lparr>des_trait_cache := des_trait_cache des @ [t]\<rparr>)"

text \<open>
  \<open>RARRAY_PTR(cache)[i]\<close> with no check of its own: an index outside the array is undefined
  in C.
\<close>

definition RARRAY_PTR_at :: "'a list \<Rightarrow> int \<Rightarrow> exn + 'a" where
  "RARRAY_PTR_at xs i =
     (if 0 \<le> i \<and> i < int (length xs) then Inr (xs ! nat i) else Inl Memory_fault)"

text \<open>
  The reference branch shared by the AMF3 readers: \<open>header >>= 1\<close>, the comparison of the
  \<open>int\<close> with the length of the table, and the access.
\<close>

definition read_reference :: "'a list \<Rightarrow> cint \<Rightarrow> 'a des_call" where
  "read_reference cache header0 =
     (let header = signed_drop_bit 1 header0 in
      if sint header \<ge> int (length cache) then raise RangeError
      else lift (RARRAY_PTR_at cache (sint header)))"

text \<open>\<open>get_ruby_obj\<close> through the class mapper: nil, or a new object in the store.\<close>

definition call_get_ruby_obj :: "class_mapper \<Rightarrow> byte list \<Rightarrow> rvalue des_call" where
  "call_get_ruby_obj cm name =
     (case get_ruby_obj cm name of None \<Rightarrow> ret Qnil | Some ob \<Rightarrow> new_obj ob)"

definition call_get_ruby_option :: "class_mapper \<Rightarrow> rvalue \<Rightarrow> bool des_call" where
  "call_get_ruby_option cm obj des =
     ret (get_ruby_option cm
            (case obj of
               Ref a \<Rightarrow> (if a < length (des_heap des) then Some (des_heap des ! a) else None)
             | _ \<Rightarrow> None)) des"

definition call_populate_ruby_obj ::
    "class_mapper \<Rightarrow> rvalue \<Rightarrow> (rvalue \<times> rvalue) list \<Rightarrow> (rvalue \<times> rvalue) list option
       \<Rightarrow> unit des_call" where
  "call_populate_ruby_obj cm obj props dynamic_props des =
     (case obj of
        Ref a \<Rightarrow>
          (if a < length (des_heap des) then
             ret () (des\<lparr>des_heap :=
                       (des_heap des)[a := populate_ruby_obj cm (des_heap des ! a) props dynamic_props]\<rparr>)
           else ret () des)
      | _ \<Rightarrow> ret () des)"

section \<open>The AMF3 deserializer (deserializer.c)\<close>

definition des3_read_string :: "rvalue des_call" where
  "des3_read_string =
     thn des_read_int (\<lambda>header des.
       if header AND 1 = 0 then
         thn (read_reference (des_str_cache des) header) (\<lambda>s. ret (Str s)) des
       else
         thn (des_read_string (sint (signed_drop_bit 1 header))) (\<lambda>str.
           case str of
             Str s \<Rightarrow> (if length s > 0 then thn (push_str_cache s) (\<lambda>_. ret str) else ret str)
           | _ \<Rightarrow> ret str) des)"

definition des3_read_xml :: "rvalue des_call" where
  "des3_read_xml =
     thn des_read_int (\<lambda>header des.
       if header AND 1 = 0 then read_reference (des_obj_cache des) header des
       else
         thn (des_read_string (sint (signed_drop_bit 1 header))) (\<lambda>str.
           case str of
             Str s \<Rightarrow> (if length s > 0 then thn (push_obj_cache str) (\<lambda>_. ret str) else ret str)
           | _ \<Rightarrow> ret str) des)"

definition des3_read_time :: "rvalue des_call" where
  "des3_read_time =
     thn des_read_int (\<lambda>header des.
       if header AND 1 = 0 then read_reference (des_obj_cache des) header des
       else
         thn des_read_double (\<lambda>milli.
         thn (push_obj_cache (Time milli)) (\<lambda>_.
         ret (Time milli))) des)"

definition des3_read_byte_array :: "rvalue des_call" where
  "des3_read_byte_array =
     thn des_read_int (\<lambda>header des.
       if header AND 1 = 0 then read_reference (des_obj_cache des) header des
       else
         thn (des_read_string (sint (signed_drop_bit 1 header))) (\<lambda>str.
           let ba = (case str of Str s \<Rightarrow> StringIO s | v \<Rightarrow> v) in
           thn (push_obj_cache ba) (\<lambda>_. ret ba)) des)"

text \<open>The string of a value read by \<open>des3_read_string\<close> (\<open>RSTRING_PTR\<close>, \<open>RSTRING_LEN\<close>).\<close>

definition str_bytes :: "rvalue \<Rightarrow> byte list" where
  "str_bytes v = (case v of Str s \<Rightarrow> s | _ \<Rightarrow> [])"

definition rb_str_intern :: "rvalue \<Rightarrow> rvalue" where
  "rb_str_intern v = Sym (str_bytes v)"

text \<open>
  \<open>rb_fix2str(INT2FIX(i), 10)\<close> for the indices of a mixed array, which are not negative.
\<close>

function decimal :: "nat \<Rightarrow> byte list" where
  "decimal n = (if n < 10 then [of_nat (48 + n)] else decimal (n div 10) @ [of_nat (48 + n mod 10)])"
  by pat_completeness auto
termination
  by (relation "measure (\<lambda>n. n)") auto

text \<open>The name the ArrayCollection test compares with, as bytes.\<close>

definition ArrayCollection_name :: "byte list" where
  "ArrayCollection_name = map of_char ''flex.messaging.io.ArrayCollection''"

text \<open>
  The loops of the AMF3 readers. \<open>deser\<close> stands for \<open>des3_deserialize(self)\<close>. A counted
  loop recurses on its counter; a loop that runs until the stream says so carries a bound
  \<open>n\<close> on its iterations and does not return (\<open>None\<close>) when the bound is used up.
\<close>

text \<open>\<open>for(i = 0; i < members_len; i++) rb_ary_push(members, des3_read_string(des));\<close>\<close>

function des3_read_members :: "int \<Rightarrow> int \<Rightarrow> byte list list \<Rightarrow> (byte list list) des_call" where
  "des3_read_members i members_len ms =
     (if i < members_len then
        thn des3_read_string (\<lambda>m. des3_read_members (i + 1) members_len (ms @ [str_bytes m]))
      else ret ms)"
  by pat_completeness auto
termination
  by (relation "measure (\<lambda>(i, members_len, ms). nat (members_len - i))") auto

text \<open>The sealed members: one value for each name, into \<open>props\<close>.\<close>

function des3_read_sealed ::
    "rvalue des_call \<Rightarrow> bool \<Rightarrow> rvalue \<Rightarrow> byte list list \<Rightarrow> int \<Rightarrow> int \<Rightarrow> unit des_call" where
  "des3_read_sealed deser translate_case props ms i members_len =
     (if i < members_len then
        thn (lift (RARRAY_PTR_at ms i)) (\<lambda>m.
        thn (if translate_case then lift (snakecase_str (Str m)) else ret (Str m)) (\<lambda>k.
        thn deser (\<lambda>v.
        thn (rb_hash_aset props (rb_str_intern k) v) (\<lambda>_.
        des3_read_sealed deser translate_case props ms (i + 1) members_len))))
      else ret ())"
  by pat_completeness auto
termination
  by (relation "measure (\<lambda>(deser, translate_case, props, ms, i, members_len).
                  nat (members_len - i))") auto

text \<open>The dynamic properties: pairs until the empty key.\<close>

primrec des3_read_dynamic :: "nat \<Rightarrow> rvalue des_call \<Rightarrow> bool \<Rightarrow> rvalue \<Rightarrow> unit des_call" where
  "des3_read_dynamic 0 deser translate_case dynamic_props = (\<lambda>des. None)"
| "des3_read_dynamic (Suc n) deser translate_case dynamic_props =
     thn des3_read_string (\<lambda>s.
     thn (if translate_case then lift (snakecase_str s) else ret s) (\<lambda>k.
       if length (str_bytes k) = 0 then ret ()
       else
         thn deser (\<lambda>v.
         thn (rb_hash_aset dynamic_props (rb_str_intern k) v) (\<lambda>_.
         des3_read_dynamic n deser translate_case dynamic_props))))"

text \<open>
  \<open>des3_deserialize_rb\<close> called with no argument while a value is being read (what a
  \<open>read_external\<close> method calls): the position is taken from the source, and given back.
\<close>

definition des3_deserialize_nested :: "rvalue des_call \<Rightarrow> rvalue des_call" where
  "des3_deserialize_nested deser des =
     (case des_src des of
        None \<Rightarrow> raise NoMethodError des
      | Some p \<Rightarrow>
          thn deser (\<lambda>v d. ret v (d\<lparr>des_src := Some (des_pos d)\<rparr>)) (des\<lparr>des_pos := p\<rparr>))"

text \<open>
  \<open>members = rb_ary_new2(members_len)\<close>: the array of member names is kept as a list, and
  a negative length is refused as \<open>rb_ary_new2\<close> refuses it.
\<close>

definition members_new2 :: "int \<Rightarrow> (byte list list) des_call" where
  "members_new2 capa = (if capa < 0 then raise ArgumentError else ret [])"

text \<open>
  The traits of an inline object, by reference or inline: externalizable, dynamic, the
  member names and the class name. \<open>header\<close> has been shifted once.
\<close>

definition des3_read_traits :: "cint \<Rightarrow> (bool \<times> bool \<times> byte list list \<times> byte list) des_call" where
  "des3_read_traits header des =
     (if header AND 1 = 0 then
        thn (read_reference (des_trait_cache des) header) (\<lambda>t.
        ret (externalizable t, dynamic t, members t, class_name t)) des
      else
        (let ext = (header AND 2 \<noteq> 0);
             dyn = (header AND 4 \<noteq> 0);
             members_len = sint (signed_drop_bit 3 header) in
         thn des3_read_string (\<lambda>cn.
         thn (members_new2 members_len) (\<lambda>ms0.
         thn (des3_read_members 0 members_len ms0) (\<lambda>ms.
         thn (push_trait_cache
                \<lparr>externalizable = ext, dynamic = dyn, members = ms,
                 class_name = str_bytes cn\<rparr>) (\<lambda>_.
         ret (ext, dyn, ms, str_bytes cn))))) des))"

text \<open>
  An object that is not an ArrayCollection: the class mapper's object, cached, then read
  by its \<open>read_external\<close> or property by property.
\<close>

definition des3_read_mapped ::
    "nat \<Rightarrow> class_mapper \<Rightarrow> rvalue des_call \<Rightarrow> bool \<Rightarrow> bool \<Rightarrow> byte list list \<Rightarrow> byte list
       \<Rightarrow> rvalue des_call" where
  "des3_read_mapped n cm deser ext dyn ms cn =
     thn (call_get_ruby_obj cm cn) (\<lambda>obj.
     thn (push_obj_cache obj) (\<lambda>_.
     if ext then
       (\<lambda>d.
         thn (read_external cm obj (des3_deserialize_nested deser)) (\<lambda>_ d'.
           case des_src d' of
             None \<Rightarrow> raise NoMethodError d'
           | Some p \<Rightarrow> ret obj (d'\<lparr>des_pos := p\<rparr>))
         (d\<lparr>des_src := Some (des_pos d)\<rparr>))
     else
       thn (call_get_ruby_option cm obj) (\<lambda>translate_case.
       thn rb_hash_new (\<lambda>props.
       thn (des3_read_sealed deser translate_case props ms 0 (int (length ms))) (\<lambda>_.
       thn (if dyn then
              thn rb_hash_new (\<lambda>dynamic_props.
              thn (des3_read_dynamic n deser translate_case dynamic_props) (\<lambda>_.
              thn (hash_pairs dynamic_props) (\<lambda>kvs. ret (Some kvs))))
            else ret None) (\<lambda>dynamic_props.
       thn (hash_pairs props) (\<lambda>kvs.
       thn (call_populate_ruby_obj cm obj kvs dynamic_props) (\<lambda>_.
       ret obj))))))))"

definition des3_read_object :: "nat \<Rightarrow> class_mapper \<Rightarrow> rvalue des_call \<Rightarrow> rvalue des_call" where
  "des3_read_object n cm deser =
     thn des_read_int (\<lambda>header des.
       if header AND 1 = 0 then read_reference (des_obj_cache des) header des
       else
         thn (des3_read_traits (signed_drop_bit 1 header)) (\<lambda>(ext, dyn, ms, cn).
           if c_str cn = ArrayCollection_name then
             thn deser (\<lambda>arr.
             thn (push_obj_cache arr) (\<lambda>_.
             ret arr))
           else des3_read_mapped n cm deser ext dyn ms cn) des)"

text \<open>The associative part of an array: pairs until the empty key, into a hash.\<close>

primrec des3_read_assoc :: "nat \<Rightarrow> rvalue des_call \<Rightarrow> rvalue \<Rightarrow> rvalue \<Rightarrow> unit des_call" where
  "des3_read_assoc 0 deser obj k = (\<lambda>des. None)"
| "des3_read_assoc (Suc n) deser obj k =
     (if length (str_bytes k) \<noteq> 0 then
        thn deser (\<lambda>v.
        thn (rb_hash_aset obj k v) (\<lambda>_.
        thn des3_read_string (\<lambda>k'.
        des3_read_assoc n deser obj k')))
      else ret ())"

text \<open>The dense part read into the hash of a mixed array, keyed by the index in decimal.\<close>

function des3_read_dense_hash :: "rvalue des_call \<Rightarrow> rvalue \<Rightarrow> int \<Rightarrow> int \<Rightarrow> unit des_call" where
  "des3_read_dense_hash deser obj i header =
     (if i < header then
        thn deser (\<lambda>v.
        thn (rb_hash_aset obj (Str (decimal (nat i))) v) (\<lambda>_.
        des3_read_dense_hash deser obj (i + 1) header))
      else ret ())"
  by pat_completeness auto
termination
  by (relation "measure (\<lambda>(deser, obj, i, header). nat (header - i))") auto

function des3_read_dense :: "rvalue des_call \<Rightarrow> rvalue \<Rightarrow> int \<Rightarrow> int \<Rightarrow> unit des_call" where
  "des3_read_dense deser obj i header =
     (if i < header then
        thn deser (\<lambda>v.
        thn (rb_ary_push obj v) (\<lambda>_.
        des3_read_dense deser obj (i + 1) header))
      else ret ())"
  by pat_completeness auto
termination
  by (relation "measure (\<lambda>(deser, obj, i, header). nat (header - i))") auto

definition des3_read_array :: "nat \<Rightarrow> rvalue des_call \<Rightarrow> rvalue des_call" where
  "des3_read_array n deser =
     thn des_read_int (\<lambda>header0 des.
       if header0 AND 1 = 0 then read_reference (des_obj_cache des) header0 des
       else
         (let header = sint (signed_drop_bit 1 header0) in
          thn des3_read_string (\<lambda>k.
            if length (str_bytes k) \<noteq> 0 then
              thn rb_hash_new (\<lambda>obj.
              thn (push_obj_cache obj) (\<lambda>_.
              thn (des3_read_assoc n deser obj k) (\<lambda>_.
              thn (des3_read_dense_hash deser obj 0 header) (\<lambda>_.
              ret obj))))
            else
              thn (rb_ary_new2 header) (\<lambda>obj.
              thn (push_obj_cache obj) (\<lambda>_.
              thn (des3_read_dense deser obj 0 header) (\<lambda>_.
              ret obj)))) des))"

function des3_read_dict_entries :: "rvalue des_call \<Rightarrow> rvalue \<Rightarrow> int \<Rightarrow> int \<Rightarrow> unit des_call" where
  "des3_read_dict_entries deser dict i header =
     (if i < header then
        thn deser (\<lambda>k.
        thn deser (\<lambda>v.
        thn (rb_hash_aset dict k v) (\<lambda>_.
        des3_read_dict_entries deser dict (i + 1) header)))
      else ret ())"
  by pat_completeness auto
termination
  by (relation "measure (\<lambda>(deser, dict, i, header). nat (header - i))") auto

definition des3_read_dict :: "rvalue des_call \<Rightarrow> rvalue des_call" where
  "des3_read_dict deser =
     thn des_read_int (\<lambda>header0 des.
       if header0 AND 1 = 0 then read_reference (des_obj_cache des) header0 des
       else
         (let header = sint (signed_drop_bit 1 header0) in
          thn rb_hash_new (\<lambda>dict.
          thn (push_obj_cache dict) (\<lambda>_.
          thn des_read_int (\<lambda>_.
          thn (des3_read_dict_entries deser dict 0 header) (\<lambda>_.
          ret dict)))) des))"

text \<open>
  \<open>des3_deserialize\<close>. Its calls of itself go through \<open>deser\<close>; \<open>n\<close> bounds the loops of the
  readers. \<open>depth\<close> is not decremented when an exception passes.
\<close>

definition des3_deserialize_body :: "nat \<Rightarrow> class_mapper \<Rightarrow> rvalue des_call \<Rightarrow> rvalue des_call" where
  "des3_deserialize_body n cm deser des0 =
     (let des1 = (if des_depth des0 = 0
                  then des0\<lparr>des_obj_cache := [], des_str_cache := [], des_trait_cache := []\<rparr>
                  else des0);
          des2 = des1\<lparr>des_depth := des_depth des1 + 1\<rparr> in
      thn des_read_byte (\<lambda>type.
      thn (if type = AMF3_UNDEFINED_MARKER \<or> type = AMF3_NULL_MARKER then ret Qnil
           else if type = AMF3_FALSE_MARKER then ret Qfalse
           else if type = AMF3_TRUE_MARKER then ret Qtrue
           else if type = AMF3_INTEGER_MARKER then thn des_read_int (\<lambda>i. ret (Fixnum (sint i)))
           else if type = AMF3_DOUBLE_MARKER then thn des_read_double (\<lambda>d. ret (Float d))
           else if type = AMF3_STRING_MARKER then des3_read_string
           else if type = AMF3_ARRAY_MARKER then des3_read_array n deser
           else if type = AMF3_OBJECT_MARKER then des3_read_object n cm deser
           else if type = AMF3_DATE_MARKER then des3_read_time
           else if type = AMF3_XML_DOC_MARKER \<or> type = AMF3_XML_MARKER then des3_read_xml
           else if type = AMF3_BYTE_ARRAY_MARKER then des3_read_byte_array
           else if type = AMF3_DICT_MARKER then des3_read_dict deser
           else raise RuntimeError) (\<lambda>v d.
      ret v (d\<lparr>des_depth := des_depth d - 1\<rparr>))) des2)"

primrec des3_deserialize :: "nat \<Rightarrow> class_mapper \<Rightarrow> rvalue des_call" where
  "des3_deserialize 0 cm = (\<lambda>des. None)"
| "des3_deserialize (Suc n) cm = des3_deserialize_body n cm (des3_deserialize n cm)"

section \<open>The AMF0 deserializer (deserializer.c)\<close>

text \<open>
  \<open>des0_read_amf3\<close>: a new AMF3 deserializer on the same source, at the same position,
  run once; the position is copied back when it returns. \<open>deser3\<close> stands for
  \<open>des3_deserialize\<close>. The store and the record of accesses are shared.
\<close>

definition des0_read_amf3 :: "rvalue des_call \<Rightarrow> rvalue des_call" where
  "des0_read_amf3 deser3 des =
     (let amf3_des = (des_alloc (des_heap des))
            \<lparr>des_src := des_src des, des_stream := des_stream des, des_pos := des_pos des,
             des_size := des_size des, des_outside := des_outside des\<rparr> in
      case deser3 amf3_des of
        None \<Rightarrow> None
      | Some (Inl e, amf3_des') \<Rightarrow>
          Some (Inl e, des\<lparr>des_heap := des_heap amf3_des', des_outside := des_outside amf3_des'\<rparr>)
      | Some (Inr result, amf3_des') \<Rightarrow>
          Some (Inr result, des\<lparr>des_pos := des_pos amf3_des', des_heap := des_heap amf3_des',
                                  des_outside := des_outside amf3_des'\<rparr>))"

text \<open>
  \<open>des0_read_props\<close>: \<open>while(1)\<close>, ended by a key of length 0. \<open>deser\<close> stands for
  \<open>des0_deserialize(self, type)\<close>, \<open>n\<close> bounds the iterations.
\<close>

primrec des0_read_props ::
    "nat \<Rightarrow> (byte \<Rightarrow> rvalue des_call) \<Rightarrow> rvalue \<Rightarrow> (int \<Rightarrow> rvalue des_call) \<Rightarrow> bool
       \<Rightarrow> unit des_call" where
  "des0_read_props 0 deser hash read_key translate_case = (\<lambda>des. None)"
| "des0_read_props (Suc n) deser hash read_key translate_case =
     thn des_read_uint16 (\<lambda>len.
       if len = 0 then thn des_read_byte (\<lambda>_. ret ())
       else
         thn (read_key (sint len)) (\<lambda>k.
         thn (if translate_case then lift (snakecase_str k) else ret k) (\<lambda>key.
         thn des_read_byte (\<lambda>type.
         thn (deser type) (\<lambda>v.
         thn (rb_hash_aset hash key v) (\<lambda>_.
         des0_read_props n deser hash read_key translate_case))))))"

definition des0_read_object :: "nat \<Rightarrow> (byte \<Rightarrow> rvalue des_call) \<Rightarrow> rvalue des_call" where
  "des0_read_object n deser =
     thn rb_hash_new (\<lambda>obj.
     thn (push_obj_cache obj) (\<lambda>_.
     thn (des0_read_props n deser obj des_read_sym False) (\<lambda>_.
     ret obj)))"

definition des0_read_typed_object ::
    "nat \<Rightarrow> class_mapper \<Rightarrow> (byte \<Rightarrow> rvalue des_call) \<Rightarrow> rvalue des_call" where
  "des0_read_typed_object n cm deser =
     thn des_read_uint16 (\<lambda>len.
     thn (des_read_string (sint len)) (\<lambda>cn.
     thn (call_get_ruby_obj cm (str_bytes cn)) (\<lambda>obj.
     thn (push_obj_cache obj) (\<lambda>_.
     thn (call_get_ruby_option cm obj) (\<lambda>translate_case.
     thn rb_hash_new (\<lambda>props.
     thn (des0_read_props n deser props des_read_sym translate_case) (\<lambda>_.
     thn (hash_pairs props) (\<lambda>kvs.
     thn (call_populate_ruby_obj cm obj kvs None) (\<lambda>_.
     ret obj)))))))))"

definition des0_read_hash ::
    "nat \<Rightarrow> class_mapper \<Rightarrow> (byte \<Rightarrow> rvalue des_call) \<Rightarrow> rvalue des_call" where
  "des0_read_hash n cm deser =
     thn (call_get_ruby_obj cm (map of_char ''Hash'')) (\<lambda>mapped.
     thn (if mapped \<noteq> Qnil then
            thn (call_get_ruby_option cm mapped) (\<lambda>translate_case. ret (mapped, translate_case))
          else thn rb_hash_new (\<lambda>obj. ret (obj, False))) (\<lambda>(obj, translate_case).
     thn des_read_uint32 (\<lambda>_.
     thn (push_obj_cache obj) (\<lambda>_.
     thn (des0_read_props n deser obj des_read_string translate_case) (\<lambda>_.
     ret obj)))))"

text \<open>\<open>for(i = 0; i < len; i++) rb_ary_push(ary, des0_deserialize(self, des_read_byte(des)));\<close>\<close>

function des0_read_elements ::
    "(byte \<Rightarrow> rvalue des_call) \<Rightarrow> rvalue \<Rightarrow> int \<Rightarrow> int \<Rightarrow> unit des_call" where
  "des0_read_elements deser ary i len =
     (if i < len then
        thn des_read_byte (\<lambda>type.
        thn (deser type) (\<lambda>v.
        thn (rb_ary_push ary v) (\<lambda>_.
        des0_read_elements deser ary (i + 1) len)))
      else ret ())"
  by pat_completeness auto
termination
  by (relation "measure (\<lambda>(deser, ary, i, len). nat (len - i))") auto

definition des0_read_array :: "(byte \<Rightarrow> rvalue des_call) \<Rightarrow> rvalue des_call" where
  "des0_read_array deser =
     thn des_read_uint32 (\<lambda>len.
     thn (rb_ary_new2 len) (\<lambda>ary.
     thn (push_obj_cache ary) (\<lambda>_.
     thn (des0_read_elements deser ary 0 len) (\<lambda>_.
     ret ary))))"

definition des0_read_time :: "rvalue des_call" where
  "des0_read_time =
     thn des_read_double (\<lambda>milli.
     thn des_read_uint16 (\<lambda>_.
     ret (Time milli)))"

text \<open>
  \<open>des0_deserialize(self, type)\<close>. Its calls of itself go through \<open>deser\<close>, those of
  \<open>des3_deserialize\<close> through \<open>deser3\<close>.
\<close>

definition des0_deserialize_body ::
    "nat \<Rightarrow> class_mapper \<Rightarrow> (byte \<Rightarrow> rvalue des_call) \<Rightarrow> rvalue des_call \<Rightarrow> byte
       \<Rightarrow> rvalue des_call" where
  "des0_deserialize_body n cm deser deser3 type des0 =
     (let des1 = (if des_depth des0 = 0 then des0\<lparr>des_obj_cache := []\<rparr> else des0);
          des2 = des1\<lparr>des_depth := des_depth des1 + 1\<rparr> in
      thn (if type = AMF0_STRING_MARKER then
             thn des_read_uint16 (\<lambda>len. des_read_string (sint len))
           else if type = AMF0_AMF3_MARKER then des0_read_amf3 deser3
           else if type = AMF0_NUMBER_MARKER then thn des_read_double (\<lambda>d. ret (Float d))
           else if type = AMF0_BOOLEAN_MARKER then
             thn des_read_byte (\<lambda>b. ret (if b = 0 then Qfalse else Qtrue))
           else if type = AMF0_NULL_MARKER \<or> type = AMF0_UNDEFINED_MARKER
                   \<or> type = AMF0_UNSUPPORTED_MARKER then ret Qnil
           else if type = AMF0_OBJECT_MARKER then des0_read_object n deser
           else if type = AMF0_TYPED_OBJECT_MARKER then des0_read_typed_object n cm deser
           else if type = AMF0_HASH_MARKER then des0_read_hash n cm deser
           else if type = AMF0_STRICT_ARRAY_MARKER then des0_read_array deser
           else if type = AMF0_REFERENCE_MARKER then
             thn des_read_uint16 (\<lambda>tmp des.
               if sint tmp \<ge> int (length (des_obj_cache des)) then raise RangeError des
               else lift (RARRAY_PTR_at (des_obj_cache des) (sint tmp)) des)
           else if type = AMF0_DATE_MARKER then des0_read_time
           else if type = AMF0_XML_MARKER \<or> type = AMF0_LONG_STRING_MARKER then
             thn des_read_uint32 (\<lambda>len. des_read_string len)
           else raise RuntimeError) (\<lambda>v d.
      ret v (d\<lparr>des_depth := des_depth d - 1\<rparr>)) des2)"

primrec des0_deserialize :: "nat \<Rightarrow> class_mapper \<Rightarrow> byte \<Rightarrow> rvalue des_call" where
  "des0_deserialize 0 cm = (\<lambda>type des. None)"
| "des0_deserialize (Suc n) cm =
     des0_deserialize_body n cm (des0_deserialize n cm) (des3_deserialize n cm)"

section \<open>The methods \<open>deserialize\<close> (deserializer.c)\<close>

definition des_check_deserialize_args :: "src \<Rightarrow> unit des_call" where
  "des_check_deserialize_args src des =
     (if des_depth des = 0 then
        (if src \<noteq> Src_nil then des_set_src src des else raise ArgumentError des)
      else
        (if src \<noteq> Src_nil then raise ArgumentError des
         else (case des_src des of
                 None \<Rightarrow> raise NoMethodError des
               | Some p \<Rightarrow> ret () (des\<lparr>des_pos := p\<rparr>))))"

text \<open>\<open>rb_funcall(des->src, rb_intern("pos="), 1, LONG2NUM(des->pos))\<close>\<close>

definition update_src_pos :: "unit des_call" where
  "update_src_pos des =
     (case des_src des of
        None \<Rightarrow> raise NoMethodError des
      | Some _ \<Rightarrow> ret () (des\<lparr>des_src := Some (des_pos des)\<rparr>))"

text \<open>
  \<open>des0_deserialize_rb\<close> takes \<open>argc\<close> and \<open>argv\<close> and does not look at them: the source
  argument \<open>src\<close> is not used.
\<close>

definition des0_deserialize_rb :: "nat \<Rightarrow> class_mapper \<Rightarrow> src \<Rightarrow> rvalue des_call" where
  "des0_deserialize_rb n cm src =
     thn des_read_byte (\<lambda>type.
     thn (des0_deserialize n cm type) (\<lambda>r.
     thn update_src_pos (\<lambda>_.
     ret r)))"

definition des3_deserialize_rb :: "nat \<Rightarrow> class_mapper \<Rightarrow> src \<Rightarrow> rvalue des_call" where
  "des3_deserialize_rb n cm src =
     thn (des_check_deserialize_args src) (\<lambda>_.
     thn (des3_deserialize n cm) (\<lambda>r.
     thn update_src_pos (\<lambda>_.
     ret r)))"

section \<open>Ruby values of the serializer (serializer.c)\<close>

text \<open>
  What the serializer is given. An object carries its identity (a number); a hash carries
  its pairs, an array its elements. A time carries the milliseconds \<open>tmp_num\<close> computed
  from it, a date the double read from its \<open>strftime\<close>, a Bignum its \<open>rb_big2dbl\<close>.
  \<open>HCustom\<close> is an object that responds to \<open>encode_amf\<close>, with the calls its method
  makes on the serializer. \<open>HRegexp\<close> and \<open>HData\<close> are two kinds of object that no branch
  of the serializers names: a regular expression, and an object of a C extension whose
  class is none of Time, Date, DateTime and StringIO.
\<close>

record ser_traits =
  t_class_name :: "byte list option"
  t_members :: "byte list list option"
  t_dynamic :: bool
  t_externalizable :: bool

datatype host =
    HNil | HTrue | HFalse
  | HFixnum int
  | HFloat double
  | HBignum nat double
  | HString nat "byte list"
  | HSymbol "byte list"
  | HArray nat "host list"
  | HHash nat "(host \<times> host) list"
  | HObject nat
  | HTime nat int
  | HDate nat double
  | HDateTime nat double
  | HStringIO nat "byte list"
  | HRegexp nat
  | HData nat
  | HCustom nat "ser_request list"
and ser_request =
    Call_serialize host "bool option"
  | Call_write_array host
  | Call_write_object host "(host \<times> host) list option" "ser_traits option"

datatype rtype =
    T_NIL | T_TRUE | T_FALSE | T_FIXNUM | T_FLOAT | T_BIGNUM | T_STRING | T_SYMBOL
  | T_ARRAY | T_HASH | T_OBJECT | T_DATA | T_REGEXP

text \<open>\<open>rb_type\<close> is what the macro \<open>TYPE\<close> expands to.\<close>

datatype klass = rb_cTime | cDate | cDateTime | cStringIO | cOther

fun rb_type :: "host \<Rightarrow> rtype" where
  "rb_type HNil = T_NIL"
| "rb_type HTrue = T_TRUE"
| "rb_type HFalse = T_FALSE"
| "rb_type (HFixnum _) = T_FIXNUM"
| "rb_type (HFloat _) = T_FLOAT"
| "rb_type (HBignum _ _) = T_BIGNUM"
| "rb_type (HString _ _) = T_STRING"
| "rb_type (HSymbol _) = T_SYMBOL"
| "rb_type (HArray _ _) = T_ARRAY"
| "rb_type (HHash _ _) = T_HASH"
| "rb_type (HObject _) = T_OBJECT"
| "rb_type (HTime _ _) = T_DATA"
| "rb_type (HDate _ _) = T_OBJECT"
| "rb_type (HDateTime _ _) = T_OBJECT"
| "rb_type (HStringIO _ _) = T_DATA"
| "rb_type (HRegexp _) = T_REGEXP"
| "rb_type (HData _) = T_DATA"
| "rb_type (HCustom _ _) = T_OBJECT"

fun CLASS_OF :: "host \<Rightarrow> klass" where
  "CLASS_OF (HTime _ _) = rb_cTime"
| "CLASS_OF (HDate _ _) = cDate"
| "CLASS_OF (HDateTime _ _) = cDateTime"
| "CLASS_OF (HStringIO _ _) = cStringIO"
| "CLASS_OF _ = cOther"

fun rb_obj_id :: "host \<Rightarrow> oid" where
  "rb_obj_id HNil = Id_nil"
| "rb_obj_id HTrue = Id_true"
| "rb_obj_id HFalse = Id_false"
| "rb_obj_id (HFixnum n) = Id_fixnum n"
| "rb_obj_id (HFloat d) = Id_float d"
| "rb_obj_id (HSymbol s) = Id_symbol s"
| "rb_obj_id (HBignum i _) = Id_heap i"
| "rb_obj_id (HString i _) = Id_heap i"
| "rb_obj_id (HArray i _) = Id_heap i"
| "rb_obj_id (HHash i _) = Id_heap i"
| "rb_obj_id (HObject i) = Id_heap i"
| "rb_obj_id (HTime i _) = Id_heap i"
| "rb_obj_id (HDate i _) = Id_heap i"
| "rb_obj_id (HDateTime i _) = Id_heap i"
| "rb_obj_id (HStringIO i _) = Id_heap i"
| "rb_obj_id (HRegexp i) = Id_heap i"
| "rb_obj_id (HData i) = Id_heap i"
| "rb_obj_id (HCustom i _) = Id_heap i"

definition rb_respond_to_encode_amf :: "host \<Rightarrow> bool" where
  "rb_respond_to_encode_amf obj = (case obj of HCustom _ _ \<Rightarrow> True | _ \<Rightarrow> False)"

text \<open>
  Modelled from the spec: the class mapper's side of encoding (section 6.1), Ruby code
  outside the sources. \<open>get_as_class_name\<close> is the wire class name of an object (\<open>None\<close>
  for nil), \<open>props_for_serialization\<close> its properties in order.
\<close>

record ser_mapper =
  get_as_class_name :: "host \<Rightarrow> byte list option"
  props_for_serialization :: "host \<Rightarrow> (host \<times> host) list"

type_synonym 'a ser_call = "('a, AMF_SERIALIZER) call"

section \<open>Writing to the stream (serializer.c)\<close>

definition ser_write_uint16 :: "platform \<Rightarrow> int \<Rightarrow> unit ser_call" where
  "ser_write_uint16 P num =
     (if num > 0xffff \<or> num < 0 then raise RangeError
      else ser_write P [word_of_int (drop_bit 8 num AND 0xff), word_of_int (num AND 0xff)])"

definition ser_write_uint32 :: "platform \<Rightarrow> int \<Rightarrow> unit ser_call" where
  "ser_write_uint32 P num =
     (if num > 0xffffffff \<or> num < 0 then raise RangeError
      else ser_write P [word_of_int (drop_bit 24 num AND 0xff), word_of_int (drop_bit 16 num AND 0xff),
                        word_of_int (drop_bit 8 num AND 0xff), word_of_int (num AND 0xff)])"

text \<open>The eight bytes of a double, most significant first.\<close>

definition ser_write_double :: "platform \<Rightarrow> double \<Rightarrow> unit ser_call" where
  "ser_write_double P num =
     ser_write P [ucast (drop_bit 56 num), ucast (drop_bit 48 num), ucast (drop_bit 40 num),
                  ucast (drop_bit 32 num), ucast (drop_bit 24 num), ucast (drop_bit 16 num),
                  ucast (drop_bit 8 num), ucast num]"

definition ser0_alloc :: "platform \<Rightarrow> AMF_SERIALIZER" where
  "ser0_alloc P =
     \<lparr>ser_stream = [], ser_size = INITIAL_STREAM_LENGTH P, ser_depth = 0,
      ser_str_cache = [], ser_str_index = 0, ser_trait_cache = [], ser_trait_index = 0,
      ser_obj_cache = [], ser_obj_index = 0, serialize_opts = None\<rparr>"

definition ser3_alloc :: "platform \<Rightarrow> AMF_SERIALIZER" where
  "ser3_alloc P =
     \<lparr>ser_stream = [], ser_size = INITIAL_STREAM_LENGTH P, ser_depth = 0,
      ser_str_cache = [], ser_str_index = 0, ser_trait_cache = [], ser_trait_index = 0,
      ser_obj_cache = [], ser_obj_index = 0, serialize_opts = None\<rparr>"

text \<open>\<open>st_lookup\<close> and \<open>st_add_direct\<close>.\<close>

definition st_lookup :: "('k \<times> int) list \<Rightarrow> 'k \<Rightarrow> int option" where
  "st_lookup table k = map_of table k"

definition add_obj_cache :: "host \<Rightarrow> unit ser_call" where
  "add_obj_cache obj ser =
     ret () (ser\<lparr>ser_obj_cache := (rb_obj_id obj, ser_obj_index ser) # ser_obj_cache ser,
                  ser_obj_index := ser_obj_index ser + 1\<rparr>)"

text \<open>A list walked in order, stopping at the first exception.\<close>

primrec each :: "('a \<Rightarrow> (unit, 's) call) \<Rightarrow> 'a list \<Rightarrow> (unit, 's) call" where
  "each f [] = ret ()"
| "each f (x # xs) = thn (f x) (\<lambda>_. each f xs)"

section \<open>Case translation on encoding (serializer.c)\<close>

text \<open>
  The loop of \<open>camelcase_str\<close> over the C string, with its flag \<open>up\<close>. The buffer
  \<open>camel_str\<close> has \<open>sizeof(snake_str)\<close> bytes, the size of a \<open>VALUE\<close>, whatever the length of
  the string; the closing NUL is written at index \<open>len\<close>.
\<close>

fun camel_loop :: "bool \<Rightarrow> byte list \<Rightarrow> byte list" where
  "camel_loop up [] = []"
| "camel_loop up (c # str) =
     (if c = 0x5f then camel_loop True str
      else if up then toupper c # camel_loop False str
      else c # camel_loop False str)"

text \<open>
  The argument of the string writers and of \<open>camelcase_str\<close>: a String, a Symbol, nil or
  something else.
\<close>

datatype strarg = A_string "byte list" | A_symbol "byte list" | A_nil | A_other

fun strarg_of :: "host \<Rightarrow> strarg" where
  "strarg_of (HString _ s) = A_string s"
| "strarg_of (HSymbol s) = A_symbol s"
| "strarg_of HNil = A_nil"
| "strarg_of _ = A_other"

definition camelcase_str :: "nat \<Rightarrow> strarg \<Rightarrow> exn + strarg" where
  "camelcase_str sizeof_snake_str snake_str =
     (case snake_str of
        A_string s \<Rightarrow>
          (let camel_str = camel_loop False (c_str s) in
           if length camel_str + 1 > sizeof_snake_str then Inl Memory_fault
           else Inr (A_string camel_str))
      | _ \<Rightarrow> Inl Memory_fault)"

section \<open>The AMF0 serializer (serializer.c)\<close>

text \<open>
  \<open>ser0_write_string\<close>. The length of a Symbol is \<open>strlen\<close> of its name. Strings are taken
  as the bytes they hold; the conversion of other encodings to UTF-8 is not modelled.
\<close>

definition ser0_write_string :: "platform \<Rightarrow> strarg \<Rightarrow> bool \<Rightarrow> unit ser_call" where
  "ser0_write_string P obj write_marker =
     (case (case obj of
              A_string s \<Rightarrow> Inr s
            | A_symbol s \<Rightarrow> Inr (c_str s)
            | _ \<Rightarrow> Inl ArgumentError) of
        Inl e \<Rightarrow> raise e
      | Inr str \<Rightarrow>
          thn (if int (length str) > 0xffff then
                 thn (if write_marker then ser_write_byte P AMF0_LONG_STRING_MARKER else ret ()) (\<lambda>_.
                 ser_write_uint32 P (int (length str)))
               else
                 thn (if write_marker then ser_write_byte P AMF0_STRING_MARKER else ret ()) (\<lambda>_.
                 ser_write_uint16 P (int (length str)))) (\<lambda>_.
          ser_write P str))"

text \<open>
  The functions below take \<open>serialize\<close> for \<open>ser0_serialize(1, &v, self)\<close>, the call with
  one argument, which stores nil in \<open>@_serialize_opts\<close>.
\<close>

definition ser0_write_array :: "platform \<Rightarrow> (host \<Rightarrow> unit ser_call) \<Rightarrow> host \<Rightarrow> unit ser_call" where
  "ser0_write_array P serialize ary =
     thn (add_obj_cache ary) (\<lambda>_.
       case ary of
         HArray _ elems \<Rightarrow>
           thn (ser_write_byte P AMF0_STRICT_ARRAY_MARKER) (\<lambda>_.
           thn (ser_write_uint32 P (int (length elems))) (\<lambda>_.
           each serialize elems))
       | _ \<Rightarrow> raise Memory_fault)"

definition ser0_hash_iter ::
    "platform \<Rightarrow> (host \<Rightarrow> unit ser_call) \<Rightarrow> bool \<Rightarrow> host \<times> host \<Rightarrow> unit ser_call" where
  "ser0_hash_iter P serialize translate_case kv =
     thn (if translate_case then lift (camelcase_str (sizeof_VALUE P) (strarg_of (fst kv)))
          else ret (strarg_of (fst kv))) (\<lambda>k.
     thn (ser0_write_string P k False) (\<lambda>_.
     serialize (snd kv)))"

text \<open>The pairs of a props argument: those given, or the class mapper's.\<close>

definition ser0_write_object0 ::
    "platform \<Rightarrow> ser_mapper \<Rightarrow> (host \<Rightarrow> unit ser_call) \<Rightarrow> host \<Rightarrow> (host \<times> host) list option
       \<Rightarrow> unit ser_call" where
  "ser0_write_object0 P M serialize obj props0 ser0 =
     (let opts = serialize_opts ser0 in
      thn (add_obj_cache obj) (\<lambda>_.
        let props = (case props0 of None \<Rightarrow> props_for_serialization M obj | Some ps \<Rightarrow> ps) in
        thn (case get_as_class_name M obj of
               Some cn \<Rightarrow>
                 thn (ser_write_byte P AMF0_TYPED_OBJECT_MARKER) (\<lambda>_.
                 ser0_write_string P (A_string cn) False)
             | None \<Rightarrow>
                 (case obj of
                    HHash _ pairs \<Rightarrow>
                      thn (ser_write_byte P AMF0_HASH_MARKER) (\<lambda>_.
                      ser_write_uint32 P (int (length pairs)))
                  | _ \<Rightarrow> ser_write_byte P AMF0_OBJECT_MARKER)) (\<lambda>_.
        thn (each (ser0_hash_iter P serialize (opts = Some True)) props) (\<lambda>_.
        thn (ser_write_uint16 P 0) (\<lambda>_.
        ser_write_byte P AMF0_OBJECT_END_MARKER)))) ser0)"

definition ser0_write_time :: "platform \<Rightarrow> host \<Rightarrow> unit ser_call" where
  "ser0_write_time P time =
     thn (ser_write_byte P AMF0_DATE_MARKER) (\<lambda>_.
     thn (ser_write_double P (long_to_double P (case time of HTime _ tmp_num \<Rightarrow> tmp_num | _ \<Rightarrow> 0))) (\<lambda>_.
     ser_write_uint16 P 0))"

definition ser0_write_date :: "platform \<Rightarrow> host \<Rightarrow> unit ser_call" where
  "ser0_write_date P date =
     thn (ser_write_byte P AMF0_DATE_MARKER) (\<lambda>_.
     thn (ser_write_double P (case date of HDate _ d \<Rightarrow> d | HDateTime _ d \<Rightarrow> d | _ \<Rightarrow> 0)) (\<lambda>_.
     ser_write_uint16 P 0))"

text \<open>
  What an \<open>encode_amf\<close> method asks of the serializer: \<open>serialize\<close>, \<open>write_array\<close>,
  \<open>write_object\<close> (the traits argument is the AMF3 serializer's).
\<close>

definition ser0_request ::
    "platform \<Rightarrow> ser_mapper \<Rightarrow> (host \<Rightarrow> bool option \<Rightarrow> (byte list option) ser_call)
       \<Rightarrow> ser_request \<Rightarrow> unit ser_call" where
  "ser0_request P M serialize rq =
     (case rq of
        Call_serialize v opts \<Rightarrow> thn (serialize v opts) (\<lambda>_. ret ())
      | Call_write_array v \<Rightarrow>
          ser0_write_array P (\<lambda>x. thn (serialize x None) (\<lambda>_. ret ())) v
      | Call_write_object v props _ \<Rightarrow>
          ser0_write_object0 P M (\<lambda>x. thn (serialize x None) (\<lambda>_. ret ())) v props)"

text \<open>
  \<open>ser0_serialize(argc, argv, self)\<close> with \<open>obj\<close> and \<open>opts\<close> scanned from the arguments.
  It returns the stream as a String (\<open>Some\<close>) or nil (\<open>None\<close>).
\<close>

definition ser0_serialize_body ::
    "platform \<Rightarrow> ser_mapper \<Rightarrow> (host \<Rightarrow> bool option \<Rightarrow> (byte list option) ser_call)
       \<Rightarrow> host \<Rightarrow> bool option \<Rightarrow> (byte list option) ser_call" where
  "ser0_serialize_body P M serialize obj opts ser0 =
     (let ser1 = ser0\<lparr>serialize_opts := opts\<rparr> in
      if ser_depth ser1 = - 1 then ret None ser1
      else
        (let ser2 = ser1\<lparr>ser_depth := ser_depth ser1 + 1\<rparr>;
             type = rb_type obj;
             klass = (if type = T_OBJECT \<or> type = T_DATA then Some (CLASS_OF obj) else None);
             serialize1 = (\<lambda>x. thn (serialize x None) (\<lambda>_. ret ())) in
         thn (case st_lookup (ser_obj_cache ser2) (rb_obj_id obj) of
                Some obj_index \<Rightarrow>
                  thn (ser_write_byte P AMF0_REFERENCE_MARKER) (\<lambda>_.
                  ser_write_uint16 P obj_index)
              | None \<Rightarrow>
                  if rb_respond_to_encode_amf obj then
                    (case obj of
                       HCustom _ rqs \<Rightarrow> each (ser0_request P M serialize) rqs
                     | _ \<Rightarrow> ret ())
                  else if type = T_STRING \<or> type = T_SYMBOL then
                    ser0_write_string P (strarg_of obj) True
                  else if type = T_FIXNUM then
                    thn (ser_write_byte P AMF0_NUMBER_MARKER) (\<lambda>_.
                    ser_write_double P (long_to_double P (case obj of HFixnum i \<Rightarrow> i | _ \<Rightarrow> 0)))
                  else if type = T_FLOAT then
                    thn (ser_write_byte P AMF0_NUMBER_MARKER) (\<lambda>_.
                    ser_write_double P (case obj of HFloat d \<Rightarrow> d | _ \<Rightarrow> 0))
                  else if type = T_NIL then ser_write_byte P AMF0_NULL_MARKER
                  else if type = T_TRUE \<or> type = T_FALSE then
                    thn (ser_write_byte P AMF0_BOOLEAN_MARKER) (\<lambda>_.
                    ser_write_byte P (if type = T_TRUE then 1 else 0))
                  else if type = T_ARRAY then ser0_write_array P serialize1 obj
                  else if klass = Some rb_cTime then ser0_write_time P obj
                  else if klass = Some cDate \<or> klass = Some cDateTime then ser0_write_date P obj
                  else if type = T_BIGNUM then
                    thn (ser_write_byte P AMF0_NUMBER_MARKER) (\<lambda>_.
                    ser_write_double P (case obj of HBignum _ d \<Rightarrow> d | _ \<Rightarrow> 0))
                  else if type = T_HASH \<or> type = T_OBJECT then
                    ser0_write_object0 P M serialize1 obj None
                  else ret ()) (\<lambda>_ ser3.
           let ser4 = ser3\<lparr>ser_depth := ser_depth ser3 - 1\<rparr> in
           if ser_depth ser4 = 0 then ret (Some (ser_stream ser4)) (ser4\<lparr>ser_depth := - 1\<rparr>)
           else ret None ser4) ser2))"

primrec ser0_serialize ::
    "nat \<Rightarrow> platform \<Rightarrow> ser_mapper \<Rightarrow> host \<Rightarrow> bool option \<Rightarrow> (byte list option) ser_call" where
  "ser0_serialize 0 P M = (\<lambda>obj opts ser. None)"
| "ser0_serialize (Suc n) P M = ser0_serialize_body P M (ser0_serialize n P M)"

section \<open>The AMF3 serializer (serializer.c)\<close>

text \<open>\<open>FIX2INT(index) << 1\<close> and the like are computed as \<open>int\<close>s.\<close>

definition to_cint :: "int \<Rightarrow> cint" where
  "to_cint i = word_of_int i"

text \<open>
  \<open>ser3_write_utf8vr\<close>. The string cache is keyed by the C string at \<open>str\<close>; what is
  written is the \<open>len\<close> bytes.
\<close>

definition ser3_write_utf8vr :: "platform \<Rightarrow> strarg \<Rightarrow> unit ser_call" where
  "ser3_write_utf8vr P obj =
     (case (case obj of
              A_string s \<Rightarrow> Inr (s, int (length s))
            | A_symbol s \<Rightarrow> Inr (c_str s, int (length (c_str s)))
            | A_nil \<Rightarrow> Inr ([], 0)
            | A_other \<Rightarrow> Inl ArgumentError) of
        Inl e \<Rightarrow> raise e
      | Inr (str, len) \<Rightarrow>
          (\<lambda>ser.
            if len = 0 then ser_write_byte P AMF3_EMPTY_STRING ser
            else
              (case st_lookup (ser_str_cache ser) (c_str str) of
                 Some str_index \<Rightarrow> ser_write_int P (push_bit 1 (to_cint str_index)) ser
               | None \<Rightarrow>
                   thn (ser_write_int P (push_bit 1 (to_cint len) OR 1)) (\<lambda>_.
                   ser_write P str)
                     (ser\<lparr>ser_str_cache := (c_str str, ser_str_index ser) # ser_str_cache ser,
                          ser_str_index := ser_str_index ser + 1\<rparr>))))"

text \<open>
  The object cache test shared by the AMF3 writers: a reference is written for an object
  already there (\<open>True\<close>: the writer returns), otherwise the object is added.
\<close>

definition ser3_ref_or_cache :: "platform \<Rightarrow> host \<Rightarrow> bool ser_call" where
  "ser3_ref_or_cache P obj ser =
     (case st_lookup (ser_obj_cache ser) (rb_obj_id obj) of
        Some obj_index \<Rightarrow>
          thn (ser_write_int P (push_bit 1 (to_cint obj_index))) (\<lambda>_. ret True) ser
      | None \<Rightarrow> thn (add_obj_cache obj) (\<lambda>_. ret False) ser)"

definition ser3_write_array :: "platform \<Rightarrow> (host \<Rightarrow> unit ser_call) \<Rightarrow> host \<Rightarrow> unit ser_call" where
  "ser3_write_array P serialize ary =
     thn (ser_write_byte P AMF3_ARRAY_MARKER) (\<lambda>_.
     thn (ser3_ref_or_cache P ary) (\<lambda>was_ref.
       if was_ref then ret ()
       else
         (case ary of
            HArray _ elems \<Rightarrow>
              thn (ser_write_int P (push_bit 1 (to_cint (int (length elems))) OR 1)) (\<lambda>_.
              thn (ser_write_byte P AMF3_CLOSE_DYNAMIC_ARRAY) (\<lambda>_.
              each serialize elems))
          | _ \<Rightarrow> raise Memory_fault)))"

text \<open>Keys of a Ruby hash: strings are equal by content.\<close>

fun same_key :: "host \<Rightarrow> host \<Rightarrow> bool" where
  "same_key (HString _ s) (HString _ t) = (s = t)"
| "same_key a b = (a = b)"

definition rb_hash_aref :: "(host \<times> host) list \<Rightarrow> host \<Rightarrow> host" where
  "rb_hash_aref props k =
     (case filter (\<lambda>kv. same_key (fst kv) k) props of [] \<Rightarrow> HNil | kv # _ \<Rightarrow> snd kv)"

text \<open>
  \<open>ser3_hash_iter\<close>: a property whose key is one of the sealed members (\<open>extra\<close>) is
  skipped.
\<close>

definition ser3_hash_iter ::
    "platform \<Rightarrow> (host \<Rightarrow> unit ser_call) \<Rightarrow> host list \<Rightarrow> bool \<Rightarrow> host \<times> host \<Rightarrow> unit ser_call" where
  "ser3_hash_iter P serialize extra translate_case kv =
     (if list_ex (\<lambda>m. same_key m (fst kv)) extra then ret ()
      else
        thn (if translate_case then lift (camelcase_str (sizeof_VALUE P) (strarg_of (fst kv)))
             else ret (strarg_of (fst kv))) (\<lambda>k.
        thn (ser3_write_utf8vr P k) (\<lambda>_.
        serialize (snd kv))))"

text \<open>The member names of a traits argument are Ruby strings; their identity plays no part.\<close>

definition ser3_write_object0 ::
    "platform \<Rightarrow> ser_mapper \<Rightarrow> (host \<Rightarrow> unit ser_call) \<Rightarrow> host \<Rightarrow> (host \<times> host) list option
       \<Rightarrow> ser_traits option \<Rightarrow> unit ser_call" where
  "ser3_write_object0 P M serialize obj props0 traits0 ser0 =
     (let opts = serialize_opts ser0 in
      thn (ser_write_byte P AMF3_OBJECT_MARKER) (\<lambda>_.
      thn (ser3_ref_or_cache P obj) (\<lambda>was_ref.
        if was_ref then ret ()
        else
          (let cn = (case traits0 of None \<Rightarrow> get_as_class_name M obj | Some t \<Rightarrow> t_class_name t);
               ms = (case traits0 of None \<Rightarrow> None | Some t \<Rightarrow> t_members t);
               members_len = (case ms of None \<Rightarrow> 0 | Some l \<Rightarrow> int (length l));
               dyn = (case traits0 of None \<Rightarrow> True | Some t \<Rightarrow> t_dynamic t);
               ext = (case traits0 of None \<Rightarrow> False | Some t \<Rightarrow> t_externalizable t) in
           thn (case cn of
                  None \<Rightarrow> ret False
                | Some c \<Rightarrow>
                    (\<lambda>ser.
                      case st_lookup (ser_trait_cache ser) (c_str c) of
                        Some trait_index \<Rightarrow>
                          thn (ser_write_int P (push_bit 2 (to_cint trait_index) OR 0x01)) (\<lambda>_.
                          ret True) ser
                      | None \<Rightarrow>
                          ret False
                            (ser\<lparr>ser_trait_cache := (c_str c, ser_trait_index ser) # ser_trait_cache ser,
                                 ser_trait_index := ser_trait_index ser + 1\<rparr>))) (\<lambda>did_ref.
           thn (if did_ref then ret ()
                else
                  (let header = (0x03 :: cint);
                       header = (if dyn then header OR push_bit 2 0x02 else header);
                       header = (if ext then header OR push_bit 2 0x01 else header);
                       header = header OR push_bit 4 (to_cint members_len) in
                   thn (ser_write_int P header) (\<lambda>_.
                   thn (ser3_write_utf8vr P (case cn of None \<Rightarrow> A_nil | Some c \<Rightarrow> A_string c)) (\<lambda>_.
                   each (\<lambda>m. ser3_write_utf8vr P (A_string m))
                     (case ms of None \<Rightarrow> [] | Some l \<Rightarrow> l))))) (\<lambda>_.
           if ext then raise RuntimeError
           else
             (let props = (case props0 of None \<Rightarrow> props_for_serialization M obj | Some ps \<Rightarrow> ps);
                  sealed = (case ms of None \<Rightarrow> [] | Some l \<Rightarrow> map (HString 0) l) in
              thn (each (\<lambda>m. serialize (rb_hash_aref props m)) sealed) (\<lambda>_.
              if dyn then
                thn (each (ser3_hash_iter P serialize sealed (opts = Some True)) props) (\<lambda>_.
                ser_write_byte P AMF3_CLOSE_DYNAMIC_OBJECT)
              else ret ()))))))) ser0)"

text \<open>\<open>ser3_write_time\<close>, \<open>ser3_write_date\<close>, \<open>ser3_write_byte_array\<close>.\<close>

definition ser3_write_time :: "platform \<Rightarrow> host \<Rightarrow> unit ser_call" where
  "ser3_write_time P time =
     thn (ser_write_byte P AMF3_DATE_MARKER) (\<lambda>_.
     thn (ser3_ref_or_cache P time) (\<lambda>was_ref.
       if was_ref then ret ()
       else
         thn (ser_write_byte P AMF3_NULL_MARKER) (\<lambda>_.
         ser_write_double P (long_to_double P (case time of HTime _ tmp_num \<Rightarrow> tmp_num | _ \<Rightarrow> 0)))))"

definition ser3_write_date :: "platform \<Rightarrow> host \<Rightarrow> unit ser_call" where
  "ser3_write_date P date =
     thn (ser_write_byte P AMF3_DATE_MARKER) (\<lambda>_.
     thn (ser3_ref_or_cache P date) (\<lambda>was_ref.
       if was_ref then ret ()
       else
         thn (ser_write_byte P AMF3_NULL_MARKER) (\<lambda>_.
         ser_write_double P (case date of HDate _ d \<Rightarrow> d | HDateTime _ d \<Rightarrow> d | _ \<Rightarrow> 0))))"

definition ser3_write_byte_array :: "platform \<Rightarrow> host \<Rightarrow> unit ser_call" where
  "ser3_write_byte_array P ba =
     thn (ser_write_byte P AMF3_BYTE_ARRAY_MARKER) (\<lambda>_.
     thn (ser3_ref_or_cache P ba) (\<lambda>was_ref.
       if was_ref then ret ()
       else ser3_write_utf8vr P (case ba of HStringIO _ s \<Rightarrow> A_string s | _ \<Rightarrow> A_other)))"

definition ser3_request ::
    "platform \<Rightarrow> ser_mapper \<Rightarrow> (host \<Rightarrow> bool option \<Rightarrow> (byte list option) ser_call)
       \<Rightarrow> ser_request \<Rightarrow> unit ser_call" where
  "ser3_request P M serialize rq =
     (case rq of
        Call_serialize v opts \<Rightarrow> thn (serialize v opts) (\<lambda>_. ret ())
      | Call_write_array v \<Rightarrow>
          ser3_write_array P (\<lambda>x. thn (serialize x None) (\<lambda>_. ret ())) v
      | Call_write_object v props traits \<Rightarrow>
          ser3_write_object0 P M (\<lambda>x. thn (serialize x None) (\<lambda>_. ret ())) v props traits)"

definition ser3_serialize_body ::
    "platform \<Rightarrow> ser_mapper \<Rightarrow> (host \<Rightarrow> bool option \<Rightarrow> (byte list option) ser_call)
       \<Rightarrow> host \<Rightarrow> bool option \<Rightarrow> (byte list option) ser_call" where
  "ser3_serialize_body P M serialize obj opts ser0 =
     (let ser1 = ser0\<lparr>serialize_opts := opts\<rparr> in
      if ser_depth ser1 = - 1 then ret None ser1
      else
        (let ser2 = ser1\<lparr>ser_depth := ser_depth ser1 + 1\<rparr>;
             type = rb_type obj;
             klass = (if type = T_OBJECT \<or> type = T_DATA then Some (CLASS_OF obj) else None);
             serialize1 = (\<lambda>x. thn (serialize x None) (\<lambda>_. ret ())) in
         thn (if rb_respond_to_encode_amf obj then
                (case obj of
                   HCustom _ rqs \<Rightarrow> each (ser3_request P M serialize) rqs
                 | _ \<Rightarrow> ret ())
              else if type = T_STRING \<or> type = T_SYMBOL then
                thn (ser_write_byte P AMF3_STRING_MARKER) (\<lambda>_.
                ser3_write_utf8vr P (strarg_of obj))
              else if type = T_FIXNUM then
                (let tmp_num = (case obj of HFixnum i \<Rightarrow> i | _ \<Rightarrow> 0) in
                 if tmp_num < MIN_INTEGER \<or> tmp_num > MAX_INTEGER then
                   thn (ser_write_byte P AMF3_DOUBLE_MARKER) (\<lambda>_.
                   ser_write_double P (long_to_double P tmp_num))
                 else
                   thn (ser_write_byte P AMF3_INTEGER_MARKER) (\<lambda>_.
                   ser_write_int P (to_cint tmp_num)))
              else if type = T_FLOAT then
                thn (ser_write_byte P AMF3_DOUBLE_MARKER) (\<lambda>_.
                ser_write_double P (case obj of HFloat d \<Rightarrow> d | _ \<Rightarrow> 0))
              else if type = T_NIL then ser_write_byte P AMF3_NULL_MARKER
              else if type = T_TRUE then ser_write_byte P AMF3_TRUE_MARKER
              else if type = T_FALSE then ser_write_byte P AMF3_FALSE_MARKER
              else if type = T_ARRAY then ser3_write_array P serialize1 obj
              else if type = T_HASH then ser3_write_object0 P M serialize1 obj None None
              else if klass = Some rb_cTime then ser3_write_time P obj
              else if klass = Some cDate \<or> klass = Some cDateTime then ser3_write_date P obj
              else if klass = Some cStringIO then ser3_write_byte_array P obj
              else if type = T_BIGNUM then
                thn (ser_write_byte P AMF3_DOUBLE_MARKER) (\<lambda>_.
                ser_write_double P (case obj of HBignum _ d \<Rightarrow> d | _ \<Rightarrow> 0))
              else if type = T_OBJECT then ser3_write_object0 P M serialize1 obj None None
              else ret ()) (\<lambda>_ ser3.
           let ser4 = ser3\<lparr>ser_depth := ser_depth ser3 - 1\<rparr> in
           if ser_depth ser4 = 0 then ret (Some (ser_stream ser4)) (ser4\<lparr>ser_depth := - 1\<rparr>)
           else ret None ser4) ser2))"

primrec ser3_serialize ::
    "nat \<Rightarrow> platform \<Rightarrow> ser_mapper \<Rightarrow> host \<Rightarrow> bool option \<Rightarrow> (byte list option) ser_call" where
  "ser3_serialize 0 P M = (\<lambda>obj opts ser. None)"
| "ser3_serialize (Suc n) P M = ser3_serialize_body P M (ser3_serialize n P M)"

section \<open>Vocabulary of the statements\<close>

text \<open>
  The deserializer as \<open>des_set_src\<close> leaves a zeroed struct for a non-empty String source.
\<close>

definition des_of_string :: "hobj list \<Rightarrow> byte list \<Rightarrow> AMF_DESERIALIZER" where
  "des_of_string h bs =
     \<lparr>des_src = Some 0, des_stream = bs, des_pos = 0, des_size = int (length bs), des_depth = 0,
      des_obj_cache = [], des_str_cache = [], des_trait_cache = [],
      des_heap = h, des_outside = False\<rparr>"

text \<open>The last step of \<open>des_read_int\<close>: bit 28 is the sign.\<close>

definition signfix :: "cint \<Rightarrow> cint" where
  "signfix result = (if result AND 0x10000000 \<noteq> 0 then result - 0x20000000 else result)"

text \<open>
  The width table of the spec (section 4.2), on the unsigned view of the 29 bits:
  1 byte under \<open>2^7\<close>, 2 under \<open>2^14\<close>, 3 under \<open>2^21\<close>, 4 under \<open>2^29\<close>.
\<close>

definition spec_u29_width :: "int \<Rightarrow> nat" where
  "spec_u29_width n =
     (let u = n mod 2 ^ 29 in
      if u < 2 ^ 7 then 1 else if u < 2 ^ 14 then 2 else if u < 2 ^ 21 then 3 else 4)"

text \<open>
  A 64-bit platform with a stream of 128 bytes that may grow to 10 MiB, for the concrete
  runs; the conversion of a \<open>long\<close> to a double is left open.
\<close>

definition platform_64 :: "(int \<Rightarrow> double) \<Rightarrow> platform" where
  "platform_64 f =
     \<lparr>INITIAL_STREAM_LENGTH = 128, MAX_STREAM_LENGTH = 10485760, sizeof_VALUE = 8,
      long_to_double = f\<rparr>"

text \<open>Later calls of \<open>serialize\<close> on a session, one after the other.\<close>

definition later_calls ::
    "(host \<Rightarrow> bool option \<Rightarrow> (byte list option) ser_call) \<Rightarrow> (host \<times> bool option) list
       \<Rightarrow> unit ser_call" where
  "later_calls serialize calls =
     each (\<lambda>c. thn (serialize (fst c) (snd c)) (\<lambda>_. ret ())) calls"

text \<open>
  The case rule in the words of the spec (section 6.1), on ASCII letters. Decoding
  inserts \<open>_\<close> before each upper-case letter and lowers it; encoding turns each \<open>_x\<close>,
  where \<open>x\<close> is a letter, into the upper-case \<open>X\<close> and leaves everything else as it is.
\<close>

definition is_upper :: "byte \<Rightarrow> bool" where
  "is_upper c = (0x41 \<le> c \<and> c \<le> 0x5A)"

definition is_lower :: "byte \<Rightarrow> bool" where
  "is_lower c = (0x61 \<le> c \<and> c \<le> 0x7A)"

definition is_letter :: "byte \<Rightarrow> bool" where
  "is_letter c = (is_upper c \<or> is_lower c)"

definition upper :: "byte \<Rightarrow> byte" where
  "upper c = (if is_lower c then c - 32 else c)"

definition spec_snake :: "byte list \<Rightarrow> byte list" where
  "spec_snake s = concat (map (\<lambda>c. if is_upper c then [0x5f, c + 32] else [c]) s)"

fun spec_camel :: "byte list \<Rightarrow> byte list" where
  "spec_camel [] = []"
| "spec_camel (c # cs) =
     (if c = 0x5f then
        (case cs of
           [] \<Rightarrow> [c]
         | x # xs \<Rightarrow> if is_letter x then upper x # spec_camel xs else c # spec_camel cs)
      else c # spec_camel cs)"

text \<open>A key in snake case proper: every \<open>_\<close> is followed by a letter.\<close>

fun letter_after_each_underscore :: "byte list \<Rightarrow> bool" where
  "letter_after_each_underscore [] = True"
| "letter_after_each_underscore (c # cs) =
     (if c = 0x5f then
        (case cs of [] \<Rightarrow> False | x # xs \<Rightarrow> is_letter x \<and> letter_after_each_underscore xs)
      else letter_after_each_underscore cs)"

section \<open>Basic facts\<close>

lemmas marker_defs =
  AMF0_NUMBER_MARKER_def AMF0_BOOLEAN_MARKER_def AMF0_STRING_MARKER_def AMF0_OBJECT_MARKER_def
  AMF0_NULL_MARKER_def AMF0_UNDEFINED_MARKER_def AMF0_REFERENCE_MARKER_def AMF0_HASH_MARKER_def
  AMF0_OBJECT_END_MARKER_def AMF0_STRICT_ARRAY_MARKER_def AMF0_DATE_MARKER_def
  AMF0_LONG_STRING_MARKER_def AMF0_UNSUPPORTED_MARKER_def AMF0_XML_MARKER_def
  AMF0_TYPED_OBJECT_MARKER_def AMF0_AMF3_MARKER_def
  AMF3_UNDEFINED_MARKER_def AMF3_NULL_MARKER_def AMF3_FALSE_MARKER_def AMF3_TRUE_MARKER_def
  AMF3_INTEGER_MARKER_def AMF3_DOUBLE_MARKER_def AMF3_STRING_MARKER_def AMF3_XML_DOC_MARKER_def
  AMF3_DATE_MARKER_def AMF3_ARRAY_MARKER_def AMF3_OBJECT_MARKER_def AMF3_XML_MARKER_def
  AMF3_BYTE_ARRAY_MARKER_def AMF3_DICT_MARKER_def
  AMF3_EMPTY_STRING_def AMF3_CLOSE_DYNAMIC_OBJECT_def AMF3_CLOSE_DYNAMIC_ARRAY_def

lemmas call_defs = thn_def ret_def raise_def lift_def

lemmas prim_defs =
  des_read_byte_def des_read_uint16_def des_read_uint32_def des_read_double_def
  des_read_int_def des_read_string_def des_read_sym_def DES_BOUNDS_CHECK_def advance_def
  stream_at_def stream_from_def des_read_int_loop.simps promote_def

lemmas heap_defs =
  new_obj_def rb_ary_new_def rb_ary_new2_def rb_hash_new_def rb_ary_push_def rb_hash_aset_def
  hash_store_def hash_pairs_def push_obj_cache_def push_str_cache_def push_trait_cache_def
  RARRAY_PTR_at_def read_reference_def call_get_ruby_obj_def call_get_ruby_option_def
  call_populate_ruby_obj_def

lemmas des3_defs =
  des3_read_string_def des3_read_xml_def des3_read_time_def des3_read_byte_array_def
  str_bytes_def rb_str_intern_def des3_read_members.simps des3_read_sealed.simps members_new2_def
  des3_read_traits_def des3_read_mapped_def des3_read_object_def des3_read_dense.simps
  des3_read_dense_hash.simps des3_read_array_def des3_read_dict_entries.simps des3_read_dict_def
  des3_deserialize_body_def c_str_def ArrayCollection_name_def

lemmas des0_defs =
  des0_read_amf3_def des0_read_object_def des0_read_typed_object_def des0_read_hash_def
  des0_read_elements.simps des0_read_array_def des0_read_time_def des0_deserialize_body_def

lemmas top_defs =
  des_check_deserialize_args_def update_src_pos_def des0_deserialize_rb_def
  des3_deserialize_rb_def des_set_src_def des_alloc_def des_of_string_def

declare des_read_int_loop.simps [simp del]
declare des3_read_members.simps [simp del]
declare des3_read_sealed.simps [simp del]
declare des3_read_dense.simps [simp del]
declare des3_read_dense_hash.simps [simp del]
declare des3_read_dict_entries.simps [simp del]
declare des0_read_elements.simps [simp del]
declare decimal.simps [simp del]
declare grow_size.simps [simp del]

lemmas ser_defs =
  ser_write_def ser_write_byte_def ser_write_int_def ser_write_uint16_def ser_write_uint32_def
  ser_write_double_def ser0_alloc_def ser3_alloc_def st_lookup_def add_obj_cache_def
  rb_respond_to_encode_amf_def platform_64_def

section \<open>The 29-bit integer: encoding and decoding\<close>

lemma and_1fffffff: "(w::cint) AND 0x1fffffff = take_bit 29 w"
  by (simp add: take_bit_eq_mask mask_eq_exp_minus_1)

lemma and_7f: "(w::'a::len word) AND 0x7f = take_bit 7 w"
  by (simp add: take_bit_eq_mask mask_eq_exp_minus_1)

lemma and_ff: "(w::'a::len word) AND 0xff = take_bit 8 w"
  by (simp add: take_bit_eq_mask mask_eq_exp_minus_1)

lemma x80: "(0x80 :: cint) = push_bit 7 1"
  by simp

lemma min7: "(n::nat) < 8 \<Longrightarrow> min 7 n = n" by simp

lemma promote_low7: "promote b AND 0x7f = ucast (take_bit 7 b)"
  unfolding promote_def and_7f
  by (rule bit_word_eqI) (simp add: bit_simps min7 cong: conj_cong)

lemma promote_ff: "promote b AND 0xff = ucast b"
  unfolding promote_def and_ff
  by (rule bit_word_eqI) (auto simp add: bit_simps min7 cong: conj_cong dest: bit_imp_le_length)

lemma promote_x80: "promote b AND 0x80 = push_bit 7 (if bit b 7 then 1 else 0)"
    unfolding promote_def x80
    apply (rule bit_word_eqI)
    apply (simp only: bit_simps)
    apply (auto simp add: bit_simps)
    done

lemma promote_cont: "promote b AND 0x80 \<noteq> 0 \<longleftrightarrow> bit b 7"
  by (simp add: promote_x80)

lemma uint_masked: "uint (take_bit 29 (w::cint)) < 2 ^ 29"
  using take_bit_int_less_exp [of 29 "uint w"] by (simp add: unsigned_take_bit_eq)

lemma sint_masked: "sint (take_bit 29 (w::cint)) = uint (take_bit 29 w)"
proof -
  have "uint (take_bit 29 w) < 2 ^ 31" using uint_masked [of w] by simp
  moreover have "- (2 ^ 31) \<le> uint (take_bit 29 w)" 
    by (rule order_trans [of _ 0]) simp_all
  ultimately have "signed_take_bit 31 (uint (take_bit 29 w)) = uint (take_bit 29 w)"
    by (rule signed_take_bit_int_eq_self [rotated])
  then show ?thesis
    by (simp add: sint_uint)
qed

lemma masked_sless_numeral: 
  "take_bit 29 (w::cint) <s numeral c \<longleftrightarrow> uint (take_bit 29 w) < sint (numeral c :: cint)"
  by (simp only: word_sless_alt sint_masked)

lemma masked_shift: "signed_drop_bit k (take_bit 29 (w::cint)) = drop_bit k (take_bit 29 w)"
  apply (rule bit_word_eqI) 
  apply (auto simp add: bit_simps)
  done



lemma loop_stop: "\<not> bit byte 7 \<or> 3 \<le> byte_cnt \<Longrightarrow> des_read_int_loop result byte_cnt byte des = ret (result, byte_cnt, byte) des"
  by (subst des_read_int_loop.simps) (auto simp add: promote_cont)

lemma loop_step: "bit byte 7 \<Longrightarrow> byte_cnt < 3 \<Longrightarrow> des_pos des + 1 \<le> des_size des \<Longrightarrow>
  des_read_int_loop result byte_cnt byte des =
    des_read_int_loop (push_bit 7 result OR ucast (take_bit 7 byte)) (byte_cnt + 1) 
      (if 0 \<le> des_pos des \<and> des_pos des < int (length (des_stream des)) then des_stream des ! nat (des_pos des) else 0)
      (des\<lparr>des_pos := des_pos des + 1, des_outside := des_outside des \<or> des_pos des < 0 \<or> des_size des \<le> des_pos des\<rparr>)"
  by (subst des_read_int_loop.simps) (simp add: promote_cont promote_low7 DES_BOUNDS_CHECK_def ret_def raise_def thn_def advance_def stream_at_def)

lemma read4: assumes "bit b0 7" "bit b1 7" "bit b2 7"
  shows "des_read_int (des_of_string h [b0, b1, b2, b3]) =
     Some (Inr (signfix (push_bit 8 (push_bit 7 (push_bit 7 (ucast (take_bit 7 b0)) OR ucast (take_bit 7 b1)) OR ucast (take_bit 7 b2)) OR ucast b3)),
           (des_of_string h [b0, b1, b2, b3])\<lparr>des_pos := 4\<rparr>)"
  using assms
  by (simp add: des_read_int_def des_of_string_def thn_def DES_BOUNDS_CHECK_def ret_def raise_def advance_def stream_at_def
      loop_step loop_stop promote_ff promote_low7 signfix_def Let_def)


lemma x10000000: "(0x10000000 :: cint) = 2 ^ 28" by simp

lemma signfix_masked: "signfix (take_bit 29 w) = signed_take_bit 28 w"
proof -
  have "take_bit 29 w AND 2 ^ 28 = 0 \<longleftrightarrow> \<not> bit w 28"
    by (simp only: and_exp_eq_0_iff_not_bit) (simp add: bit_simps)
  then show ?thesis
    unfolding signfix_def x10000000
    by (simp add: signed_take_bit_eq_take_bit_minus)
qed

lemma bit_x80: "bit (0x80 :: 'a::semiring_bit_operations) n \<longleftrightarrow> possible_bit TYPE('a) n \<and> n = 7"
  using bit_exp_iff [where ?'a = 'a, of 7 n] by simp

lemma cont_byte: "bit (ucast (take_bit 7 (x::cint) OR 0x80) :: byte) 7"
  by (simp add: bit_simps bit_x80)

lemma cont_byte_low: "ucast (take_bit 7 (ucast (take_bit 7 (x::cint) OR 0x80) :: byte)) = (take_bit 7 x :: cint)"
  by (rule bit_word_eqI) (auto simp add: bit_simps bit_x80)

lemma last_byte: "\<not> bit (ucast (take_bit 7 (x::cint)) :: byte) 7"
  by (simp add: bit_simps)

lemma last_byte_low: "ucast (take_bit 7 (ucast (take_bit 7 (x::cint)) :: byte)) = (take_bit 7 x :: cint)"
  by (rule bit_word_eqI) (auto simp add: bit_simps)

lemma full_byte: "ucast (ucast (take_bit 8 (x::cint)) :: byte) = (take_bit 8 x :: cint)"
  by (rule bit_word_eqI) (auto simp add: bit_simps)

lemma take_bit_small: fixes x :: cint assumes "uint x < 2 ^ n" shows "take_bit n x = x"
proof (rule word_uint_eqI)
  show "uint (take_bit n x) = uint x"
    using assms by (simp add: unsigned_take_bit_eq take_bit_int_eq_self)
qed


lemma tmp_cases:
  "ser_write_int_tmp w =
     (let m = take_bit 29 w in
      if uint m < 2 ^ 7 then Inr [ucast (take_bit 7 m)]
      else if uint m < 2 ^ 14 then Inr [ucast (take_bit 7 (drop_bit 7 m) OR 0x80), ucast (take_bit 7 m)]
      else if uint m < 2 ^ 21 then
        Inr [ucast (take_bit 7 (drop_bit 14 m) OR 0x80), ucast (take_bit 7 (drop_bit 7 m) OR 0x80),
             ucast (take_bit 7 m)]
      else
        Inr [ucast (take_bit 7 (drop_bit 22 m) OR 0x80), ucast (take_bit 7 (drop_bit 15 m) OR 0x80),
             ucast (take_bit 7 (drop_bit 8 m) OR 0x80), ucast (take_bit 8 m)])"
proof -
  have small: "uint (take_bit 29 w) < 2 ^ 7 \<Longrightarrow> take_bit 7 (take_bit 29 w) = take_bit 29 w"
    by (rule take_bit_small)
  have lt: "uint (take_bit 29 w) < 1073741824"
    using uint_masked [of w] by simp
  show ?thesis
    unfolding ser_write_int_tmp_def and_1fffffff Let_def masked_sless_numeral masked_shift and_7f and_ff
    using small lt by simp
qed


lemmas run_defs = des_read_int_def des_of_string_def thn_def DES_BOUNDS_CHECK_def ret_def raise_def advance_def stream_at_def
      loop_step loop_stop promote_ff promote_low7 Let_def

lemma read1: assumes "\<not> bit b0 7"
  shows "des_read_int (des_of_string h [b0]) =
     Some (Inr (signfix (ucast (take_bit 7 b0))), (des_of_string h [b0])\<lparr>des_pos := 1\<rparr>)"
  using assms by (simp add: run_defs flip: signfix_def)

lemma read2: assumes "bit b0 7" "\<not> bit b1 7"
  shows "des_read_int (des_of_string h [b0, b1]) =
     Some (Inr (signfix (push_bit 7 (ucast (take_bit 7 b0)) OR ucast (take_bit 7 b1))),
           (des_of_string h [b0, b1])\<lparr>des_pos := 2\<rparr>)"
  using assms by (simp add: run_defs flip: signfix_def)

lemma read3: assumes "bit b0 7" "bit b1 7" "\<not> bit b2 7"
  shows "des_read_int (des_of_string h [b0, b1, b2]) =
     Some (Inr (signfix (push_bit 7 (push_bit 7 (ucast (take_bit 7 b0)) OR ucast (take_bit 7 b1)) OR ucast (take_bit 7 b2))),
           (des_of_string h [b0, b1, b2])\<lparr>des_pos := 3\<rparr>)"
  using assms by (simp add: run_defs flip: signfix_def)

lemma join2: "push_bit 7 (take_bit 7 (drop_bit 7 m)) OR take_bit 7 m = take_bit 14 (m::cint)"
  by (rule bit_word_eqI) (simp add: bit_simps cong: conj_cong, arith)

lemma join3: "(push_bit 14 (take_bit 7 (drop_bit 14 m)) OR push_bit 7 (take_bit 7 (drop_bit 7 m))) OR take_bit 7 m = take_bit 21 (m::cint)"
  by (rule bit_word_eqI) (simp add: bit_simps cong: conj_cong, arith)

lemma join4: "((push_bit 22 (take_bit 7 (drop_bit 22 m)) OR push_bit 15 (take_bit 7 (drop_bit 15 m))) OR push_bit 8 (take_bit 7 (drop_bit 8 m))) OR take_bit 8 m = take_bit 29 (m::cint)"
  by (rule bit_word_eqI) (simp add: bit_simps cong: conj_cong, arith)

lemma set_src_String: "bs \<noteq> [] \<Longrightarrow> des_set_src (Src_String bs) (des_alloc h) = Some (Inr (), des_of_string h bs)"
  by (simp add: des_set_src_def des_alloc_def des_of_string_def ret_def raise_def)

lemma round_trip_word:
  "\<exists>tmp. ser_write_int_tmp w = Inr tmp \<and> length tmp = spec_u29_width (uint w) \<and>
     des_read_int (des_of_string h tmp) = Some (Inr (signed_take_bit 28 w), (des_of_string h tmp)\<lparr>des_pos := int (length tmp)\<rparr>)"
proof -
  define m where "m = take_bit 29 w"
  have um: "uint m = uint w mod 2 ^ 29"
    unfolding m_def unsigned_take_bit_eq by (simp add: take_bit_eq_mod)
  have sf: "signfix m = signed_take_bit 28 w"
    unfolding m_def by (rule signfix_masked)
  have tmp: "ser_write_int_tmp w =
      (if uint m < 2 ^ 7 then Inr [ucast (take_bit 7 m)]
      else if uint m < 2 ^ 14 then Inr [ucast (take_bit 7 (drop_bit 7 m) OR 0x80), ucast (take_bit 7 m)]
      else if uint m < 2 ^ 21 then
        Inr [ucast (take_bit 7 (drop_bit 14 m) OR 0x80), ucast (take_bit 7 (drop_bit 7 m) OR 0x80),
             ucast (take_bit 7 m)]
      else
        Inr [ucast (take_bit 7 (drop_bit 22 m) OR 0x80), ucast (take_bit 7 (drop_bit 15 m) OR 0x80),
             ucast (take_bit 7 (drop_bit 8 m) OR 0x80), ucast (take_bit 8 m)])"
    unfolding m_def tmp_cases Let_def ..
  have m29: "take_bit 29 m = m" unfolding m_def by simp
  consider (1) "uint m < 2 ^ 7" | (2) "\<not> uint m < 2 ^ 7" "uint m < 2 ^ 14"
    | (3) "\<not> uint m < 2 ^ 7" "\<not> uint m < 2 ^ 14" "uint m < 2 ^ 21"
    | (4) "\<not> uint m < 2 ^ 7" "\<not> uint m < 2 ^ 14" "\<not> uint m < 2 ^ 21"
    by blast
  then show ?thesis
  proof cases
    case 1
    let ?tmp = "[ucast (take_bit 7 m)] :: byte list"
    have t: "ser_write_int_tmp w = Inr ?tmp" using 1 by (simp only: tmp if_True)
    have l: "length ?tmp = spec_u29_width (uint w)" using 1 um by (simp add: spec_u29_width_def)
    have r: "des_read_int (des_of_string h ?tmp) =
        Some (Inr (signfix (take_bit 7 m)), (des_of_string h ?tmp)\<lparr>des_pos := int (length ?tmp)\<rparr>)"
      by (simp add: read1 last_byte last_byte_low)
    have "take_bit 7 m = m" using 1 by (rule take_bit_small)
    then have v: "signfix (take_bit 7 m) = signed_take_bit 28 w" using sf by simp
    from t l r [unfolded v] show ?thesis by blast
  next
    case 2
    let ?tmp = "[ucast (take_bit 7 (drop_bit 7 m) OR 0x80), ucast (take_bit 7 m)] :: byte list"
    have t: "ser_write_int_tmp w = Inr ?tmp" using 2 by (simp only: tmp if_True if_False)
    have l: "length ?tmp = spec_u29_width (uint w)" using 2 um by (simp add: spec_u29_width_def)
    have r: "des_read_int (des_of_string h ?tmp) =
        Some (Inr (signfix (take_bit 14 m)), (des_of_string h ?tmp)\<lparr>des_pos := int (length ?tmp)\<rparr>)"
      by (simp add: read2 last_byte last_byte_low cont_byte cont_byte_low join2)
    have "take_bit 14 m = m" using 2 by (intro take_bit_small)
    then have v: "signfix (take_bit 14 m) = signed_take_bit 28 w" using sf by simp
    from t l r [unfolded v] show ?thesis by blast
  next
    case 3
    let ?tmp = "[ucast (take_bit 7 (drop_bit 14 m) OR 0x80), ucast (take_bit 7 (drop_bit 7 m) OR 0x80),
                 ucast (take_bit 7 m)] :: byte list"
    have t: "ser_write_int_tmp w = Inr ?tmp" using 3 by (simp only: tmp if_True if_False)
    have l: "length ?tmp = spec_u29_width (uint w)" using 3 um by (simp add: spec_u29_width_def)
    have r: "des_read_int (des_of_string h ?tmp) =
        Some (Inr (signfix (take_bit 21 m)), (des_of_string h ?tmp)\<lparr>des_pos := int (length ?tmp)\<rparr>)"
      by (simp add: read3 last_byte last_byte_low cont_byte cont_byte_low join3)
    have "take_bit 21 m = m" using 3 by (intro take_bit_small)
    then have v: "signfix (take_bit 21 m) = signed_take_bit 28 w" using sf by simp
    from t l r [unfolded v] show ?thesis by blast
  next
    case 4
    let ?tmp = "[ucast (take_bit 7 (drop_bit 22 m) OR 0x80), ucast (take_bit 7 (drop_bit 15 m) OR 0x80),
                 ucast (take_bit 7 (drop_bit 8 m) OR 0x80), ucast (take_bit 8 m)] :: byte list"
    have t: "ser_write_int_tmp w = Inr ?tmp" using 4 by (simp only: tmp if_True if_False)
    have l: "length ?tmp = spec_u29_width (uint w)" using 4 um by (simp add: spec_u29_width_def)
    have r: "des_read_int (des_of_string h ?tmp) =
        Some (Inr (signfix (take_bit 29 m)), (des_of_string h ?tmp)\<lparr>des_pos := int (length ?tmp)\<rparr>)"
      by (simp add: read4 cont_byte cont_byte_low full_byte join4)
    have v: "signfix (take_bit 29 m) = signed_take_bit 28 w" using sf m29 by simp
    from t l r [unfolded v] show ?thesis by blast
  qed
qed

lemma sint_in_range: assumes "- (2 ^ 28) \<le> n" "n < 2 ^ 28"
  shows "signed_take_bit 28 (word_of_int n :: cint) = word_of_int n" "sint (word_of_int n :: cint) = n"
    "uint (word_of_int n :: cint) mod 2 ^ 29 = n mod 2 ^ 29"
proof -
  have a: "signed_take_bit 28 n = n" using assms by (rule signed_take_bit_int_eq_self)
  have "- (2 ^ 31) \<le> n" "n < 2 ^ 31" using assms by simp_all
  then have b: "signed_take_bit 31 n = n" by (rule signed_take_bit_int_eq_self)
  show "sint (word_of_int n :: cint) = n" using b by (simp add: sint_sbintrunc')
  show "signed_take_bit 28 (word_of_int n :: cint) = word_of_int n"
    using a by transfer (simp add: signed_take_bit_take_bit)
  show "uint (word_of_int n :: cint) mod 2 ^ 29 = n mod 2 ^ 29"
    by (simp add: uint_word_of_int mod_mod_cancel)
qed

section \<open>Writing to the stream\<close>

lemma ser_write_room:
  "int (length (ser_stream ser)) + int (length str) + 1 \<le> ser_size ser
     \<Longrightarrow> ser_write P str ser = Some (Inr (), ser\<lparr>ser_stream := ser_stream ser @ str\<rparr>)"
  by (simp add: ser_write_def call_defs Let_def)

lemma ser_write_stream:
  "ser_write P str ser = Some (r, ser')
     \<Longrightarrow> (r = Inr () \<and> ser_stream ser' = ser_stream ser @ str)
       \<or> (r = Inl RangeError \<and> ser_stream ser' = ser_stream ser)"
  by (auto simp add: ser_write_def call_defs Let_def split: if_splits option.splits)

lemma ser_write_cache:
  "ser_write P str ser = Some (r, ser')
     \<Longrightarrow> ser_str_cache ser' = ser_str_cache ser \<and> ser_str_index ser' = ser_str_index ser
       \<and> (r = Inr () \<longrightarrow> ser_stream ser' = ser_stream ser @ str)"
  by (auto simp add: ser_write_def call_defs Let_def split: if_splits option.splits)


lemma grow_size_positive: "0 < sz \<Longrightarrow> \<exists>sz'. grow_size needed sz = Some sz' \<and> 0 < sz'"
proof (induction needed sz rule: grow_size.induct)
  case (1 needed sz)
  then show ?case by (subst grow_size.simps) auto
qed

lemma ser_write_returns:
  "0 < ser_size ser \<Longrightarrow> \<exists>r ser'. ser_write P str ser = Some (r, ser') \<and> 0 < ser_size ser'"
  using grow_size_positive [of "ser_size ser" "int (length (ser_stream ser)) + int (length str) + 1"]
  by (auto simp add: ser_write_def call_defs Let_def)

lemma ser_write_int_tmp_total:
  "\<exists>tmp. ser_write_int_tmp num = Inr tmp \<and> 1 \<le> length tmp \<and> length tmp \<le> 4"
  by (simp add: tmp_cases Let_def)

lemma ser_write_int_tmp_masks:
  "ser_write_int_tmp (num AND 0x1fffffff) = ser_write_int_tmp num"
  by (simp add: tmp_cases and_1fffffff)

text \<open>
  C1. For every integer \<open>n\<close> from \<open>-2^28\<close> to \<open>2^28 - 1\<close>, \<open>ser_write_int\<close> appends to the
  stream the bytes \<open>tmp\<close>, whose number is the one the width table gives for the unsigned
  view of \<open>n\<close>: it does so whenever the stream has room for five more bytes, it returns
  whenever the size of the stream is positive, and when it returns it has appended \<open>tmp\<close>
  or, the stream having outgrown its limit, nothing. \<open>des_read_int\<close> on a deserializer
  whose source is exactly these bytes returns \<open>n\<close> and has consumed them all.
\<close>

theorem u29_round_trip:
  assumes "- (2 ^ 28) \<le> n" and "n < 2 ^ 28"
  shows "\<exists>tmp des r des'.
           ser_write_int_tmp (word_of_int n) = Inr tmp
         \<and> ser_write_int P (word_of_int n) = ser_write P tmp
         \<and> (\<forall>ser. int (length (ser_stream ser)) + 5 \<le> ser_size ser \<longrightarrow>
               ser_write_int P (word_of_int n) ser =
                 Some (Inr (), ser\<lparr>ser_stream := ser_stream ser @ tmp\<rparr>))
         \<and> (\<forall>ser x ser'. ser_write_int P (word_of_int n) ser = Some (x, ser') \<longrightarrow>
               (x = Inr () \<and> ser_stream ser' = ser_stream ser @ tmp)
             \<or> (x = Inl RangeError \<and> ser_stream ser' = ser_stream ser))
         \<and> (\<forall>ser. 0 < ser_size ser \<longrightarrow>
               (\<exists>x ser'. ser_write_int P (word_of_int n) ser = Some (x, ser')))
         \<and> length tmp = spec_u29_width n
         \<and> des_set_src (Src_String tmp) (des_alloc h) = Some (Inr (), des)
         \<and> des_read_int des = Some (Inr r, des')
         \<and> sint r = n
         \<and> des_pos des' = int (length tmp)"
proof -
  let ?w = "word_of_int n :: cint"
  obtain tmp where t: "ser_write_int_tmp ?w = Inr tmp"
    and l: "length tmp = spec_u29_width (uint ?w)"
    and r: "des_read_int (des_of_string h tmp) =
              Some (Inr (signed_take_bit 28 ?w), (des_of_string h tmp)\<lparr>des_pos := int (length tmp)\<rparr>)"
    using round_trip_word [of ?w h] by blast
  have "spec_u29_width (uint ?w) = spec_u29_width n"
    using sint_in_range(3) [OF assms] by (simp add: spec_u29_width_def)
  with l have l': "length tmp = spec_u29_width n" by simp
  have "0 < spec_u29_width n" by (simp add: spec_u29_width_def Let_def)
  with l' have "tmp \<noteq> []" by auto
  then have s: "des_set_src (Src_String tmp) (des_alloc h) = Some (Inr (), des_of_string h tmp)"
    by (rule set_src_String)
  have w: "ser_write_int P ?w = ser_write P tmp"
    by (rule ext) (simp add: ser_write_int_def t)
  have "length tmp \<le> 4" using ser_write_int_tmp_total [of ?w] t by simp
  then have a: "\<forall>ser. int (length (ser_stream ser)) + 5 \<le> ser_size ser \<longrightarrow>
               ser_write_int P ?w ser = Some (Inr (), ser\<lparr>ser_stream := ser_stream ser @ tmp\<rparr>)"
    unfolding w by (intro allI impI ser_write_room) simp
  have b: "\<forall>ser x ser'. ser_write_int P ?w ser = Some (x, ser') \<longrightarrow>
               (x = Inr () \<and> ser_stream ser' = ser_stream ser @ tmp)
             \<or> (x = Inl RangeError \<and> ser_stream ser' = ser_stream ser)"
    unfolding w by (intro allI impI) (rule ser_write_stream)
  have c: "\<forall>ser. 0 < ser_size ser \<longrightarrow> (\<exists>x ser'. ser_write_int P ?w ser = Some (x, ser'))"
    unfolding w using ser_write_returns by blast
  have v: "sint (signed_take_bit 28 ?w) = n"
    using sint_in_range(1,2) [OF assms] by simp
  have p: "des_pos ((des_of_string h tmp)\<lparr>des_pos := int (length tmp)\<rparr>) = int (length tmp)"
    by simp
  from t w a b c l' s r v p show ?thesis by blast
qed

text \<open>
  The witness: \<open>-2^28\<close> written by a new serializer gives the stream C0 80 80 00, which
  reads back as \<open>-2^28\<close>.
\<close>

lemma tmp_minimum: "ser_write_int_tmp (word_of_int (- 268435456)) = Inr [0xC0, 0x80, 0x80, 0x00]"
  by (simp add: ser_write_int_tmp_def word_sless_alt)

theorem u29_round_trip_witness:
  "\<forall>f h. \<exists>des r des'.
     ser_write_int (platform_64 f) (word_of_int (- 268435456)) (ser3_alloc (platform_64 f)) =
       Some (Inr (), (ser3_alloc (platform_64 f))\<lparr>ser_stream := [0xC0, 0x80, 0x80, 0x00]\<rparr>)
   \<and> length [0xC0, 0x80, 0x80, 0x00 :: byte] = spec_u29_width (- 268435456)
   \<and> des_set_src (Src_String [0xC0, 0x80, 0x80, 0x00]) (des_alloc h) = Some (Inr (), des)
   \<and> des_read_int des = Some (Inr r, des')
   \<and> sint r = - 268435456
   \<and> des_pos des' = 4"
proof (intro allI)
  fix f :: "int \<Rightarrow> double" and h :: "hobj list"
  let ?P = "platform_64 f"
  let ?b = "[0xC0, 0x80, 0x80, 0x00] :: byte list"
  from u29_round_trip [of "- 268435456" ?P h] tmp_minimum
  obtain des r des' where
    a: "\<forall>ser. int (length (ser_stream ser)) + 5 \<le> ser_size ser \<longrightarrow>
               ser_write_int ?P (word_of_int (- 268435456)) ser =
                 Some (Inr (), ser\<lparr>ser_stream := ser_stream ser @ ?b\<rparr>)"
    and l: "length ?b = spec_u29_width (- 268435456)"
    and d: "des_set_src (Src_String ?b) (des_alloc h) = Some (Inr (), des)"
       "des_read_int des = Some (Inr r, des')" "sint r = - 268435456"
       "des_pos des' = int (length ?b)"
    by auto
  from a have "ser_write_int ?P (word_of_int (- 268435456)) (ser3_alloc ?P) =
       Some (Inr (), (ser3_alloc ?P)\<lparr>ser_stream := ser_stream (ser3_alloc ?P) @ ?b\<rparr>)"
    by (simp add: ser3_alloc_def platform_64_def)
  then have "ser_write_int ?P (word_of_int (- 268435456)) (ser3_alloc ?P) =
       Some (Inr (), (ser3_alloc ?P)\<lparr>ser_stream := ?b\<rparr>)"
    by (simp add: ser3_alloc_def)
  with l d show "\<exists>des r des'.
     ser_write_int ?P (word_of_int (- 268435456)) (ser3_alloc ?P) =
       Some (Inr (), (ser3_alloc ?P)\<lparr>ser_stream := ?b\<rparr>)
   \<and> length ?b = spec_u29_width (- 268435456)
   \<and> des_set_src (Src_String ?b) (des_alloc h) = Some (Inr (), des)
   \<and> des_read_int des = Some (Inr r, des')
   \<and> sint r = - 268435456
   \<and> des_pos des' = 4"
    by auto
qed

text \<open>
  \<open>ser_write_int\<close> masks its argument to 29 bits before it looks at it: for every 32-bit
  value it fills \<open>tmp\<close> with one of the four widths, the bytes being those of the masked
  value, and hands them to \<open>ser_write\<close>.
\<close>

lemma ser_write_int_masks_first:
  "\<exists>tmp. ser_write_int_tmp num = Inr tmp
       \<and> 1 \<le> length tmp \<and> length tmp \<le> 4
       \<and> length tmp = spec_u29_width (uint num)
       \<and> ser_write_int_tmp (num AND 0x1fffffff) = Inr tmp
       \<and> ser_write_int P num = ser_write P tmp"
proof -
  obtain tmp where t: "ser_write_int_tmp num = Inr tmp" 
    and l: "length tmp = spec_u29_width (uint num)"
    using round_trip_word [of num "[]"] by blast
  have b: "1 \<le> length tmp \<and> length tmp \<le> 4"
    using ser_write_int_tmp_total [of num] t by simp
  have m: "ser_write_int_tmp (num AND 0x1fffffff) = Inr tmp"
    using t by (simp only: ser_write_int_tmp_masks)
  have w: "ser_write_int P num = ser_write P tmp"
    by (rule ext) (simp add: ser_write_int_def t)
  from t b l m w show ?thesis by blast
qed

text \<open>
  C6. The code departs from the claim: the mask comes before the tests of the width, so
  the last branch of \<open>ser_write_int\<close>, which raises the range error, is never taken. The
  value \<open>0x20000000\<close>, whose unsigned view is above \<open>2^29 - 1\<close>, is not refused: a new
  serializer writes the single byte 00 for it, as it does for 0; and no value at all makes
  \<open>ser_write_int\<close> raise before it writes.
\<close>

theorem out_of_range_int_is_not_refused:
  "(2 ^ 29 - 1 :: int) < uint (0x20000000 :: cint)
   \<and> ser_write_int_tmp 0x20000000 = Inr [0]
   \<and> ser_write_int (platform_64 f) 0x20000000 (ser3_alloc (platform_64 f)) =
       Some (Inr (), (ser3_alloc (platform_64 f))\<lparr>ser_stream := [0]\<rparr>)
   \<and> ser_write_int (platform_64 f) 0 (ser3_alloc (platform_64 f)) =
       Some (Inr (), (ser3_alloc (platform_64 f))\<lparr>ser_stream := [0]\<rparr>)
   \<and> (\<forall>num. \<exists>tmp. ser_write_int_tmp num = Inr tmp)"
proof -
  have "(2 ^ 29 - 1 :: int) < uint (0x20000000 :: cint)" by simp
  moreover have t: "ser_write_int_tmp 0x20000000 = Inr [0]"
    by (simp add: ser_write_int_tmp_def word_sless_alt)
  moreover have "ser_write_int (platform_64 f) 0x20000000 (ser3_alloc (platform_64 f)) =
       Some (Inr (), (ser3_alloc (platform_64 f))\<lparr>ser_stream := [0]\<rparr>)"
    unfolding ser_write_int_def t
    by (simp add: ser_write_def call_defs ser3_alloc_def platform_64_def)
  moreover have "ser_write_int (platform_64 f) 0 (ser3_alloc (platform_64 f)) =
       Some (Inr (), (ser3_alloc (platform_64 f))\<lparr>ser_stream := [0]\<rparr>)"
    by (simp add: ser_write_int_def ser_write_int_tmp_def word_sless_alt ser_write_def call_defs
          ser3_alloc_def platform_64_def)
  moreover have "\<forall>num. \<exists>tmp. ser_write_int_tmp num = Inr tmp"
    using ser_write_int_tmp_total by blast
  ultimately show ?thesis by blast
qed

section \<open>Reading within the source\<close>

lemma des_read_byte_inside:
  assumes "0 \<le> des_pos des" and "des_read_byte des = Some (r, des')"
  shows "des_outside des' = des_outside des"
  using assms by (auto simp add: call_defs prim_defs split: if_splits)

lemma des_read_string_inside:
  assumes "0 \<le> des_pos des" and "des_read_string len des = Some (r, des')"
  shows "des_outside des' = des_outside des"
  using assms by (auto simp add: call_defs prim_defs split: if_splits)

lemma des_read_sym_outside:
  assumes "0 \<le> len" and "des_pos des + len = des_size des"
  shows "\<exists>sym des'. des_read_sym len des = Some (Inr sym, des') \<and> des_outside des'"
  using assms by (simp add: call_defs prim_defs Let_def)

text \<open>
  C2. The code departs from the claim in \<open>des_read_sym\<close>: after its bounds check it reads
  (and writes) \<open>stream[pos + len]\<close>, which is the index \<open>size\<close> when the key ends the
  buffer. On the first four bytes 03 00 01 61 of the AMF0 object 03 00 01 61 05 00 00 09,
  \<open>des0_deserialize(self, des_read_byte(des))\<close> raises the range error of a truncated
  stream, but only after an access outside the buffer; on the whole stream it returns
  the object and stays inside.
\<close>

theorem des_read_sym_reads_past_the_buffer:
  "thn des_read_byte (des0_deserialize (Suc (Suc n)) cm) (des_of_string h [3, 0, 1, 0x61]) =
     Some (Inl RangeError,
           (des_of_string h [3, 0, 1, 0x61])
             \<lparr>des_pos := 4, des_depth := 1, des_obj_cache := [Ref (length h)],
              des_heap := h @ [Hash []], des_outside := True\<rparr>)
   \<and> thn des_read_byte (des0_deserialize (Suc (Suc (Suc n))) cm)
         (des_of_string h [3, 0, 1, 0x61, 5, 0, 0, 9]) =
     Some (Inr (Ref (length h)),
           (des_of_string h [3, 0, 1, 0x61, 5, 0, 0, 9])
             \<lparr>des_pos := 8, des_obj_cache := [Ref (length h)],
              des_heap := h @ [Hash [(Sym [0x61], Qnil)]]\<rparr>)"
  by (simp add: call_defs prim_defs heap_defs des0_defs top_defs marker_defs Let_def)

section \<open>The ArrayCollection wrapper\<close>

lemma c_str_ArrayCollection_name: "c_str ArrayCollection_name = ArrayCollection_name"
  by (simp add: c_str_def ArrayCollection_name_def)

text \<open>
  The branch of \<open>des3_read_object\<close> for the class name \<open>flex.messaging.io.ArrayCollection\<close>:
  it returns the value \<open>arr\<close> that the next call of \<open>des3_deserialize\<close> returns, and appends
  \<open>arr\<close> to the object cache as that call left it.
\<close>

lemma des3_read_object_ArrayCollection:
  assumes "des_read_int des = Some (Inr header, des1)"
    and "header AND 1 \<noteq> 0"
    and "des3_read_traits (signed_drop_bit 1 header) des1 =
           Some (Inr (ext, dyn, ms, ArrayCollection_name), des2)"
    and "deser des2 = Some (Inr arr, des3)"
  shows "\<exists>des'. des3_read_object n cm deser des = Some (Inr arr, des')
       \<and> des' = des3\<lparr>des_obj_cache := des_obj_cache des3 @ [arr]\<rparr>
       \<and> RARRAY_PTR_at (des_obj_cache des') (int (length (des_obj_cache des3))) = Inr arr
       \<and> (\<forall>k. RARRAY_PTR_at (des_obj_cache des3) k = Inr arr
              \<longrightarrow> RARRAY_PTR_at (des_obj_cache des') k = Inr arr)"
  using assms
  by (auto simp add: des3_read_object_def thn_def ret_def push_obj_cache_def
        c_str_ArrayCollection_name RARRAY_PTR_at_def nth_append split: if_splits)

text \<open>
  The scenario of the spec (8.2, 6): in the array 09 07 01 of three elements, the wrapped
  array \<open>[1, 2]\<close> is followed by the object references of index 1 and 2; all three
  elements are the same array.
\<close>

lemma ArrayCollection_references:
  "des3_deserialize_rb (Suc (Suc (Suc (Suc 0)))) cm
     (Src_String ([0x09, 0x07, 0x01, 0x0A, 0x07, 0x43] @ ArrayCollection_name
                   @ [0x09, 0x05, 0x01, 0x04, 0x01, 0x04, 0x02, 0x0A, 0x02, 0x0A, 0x04]))
     (des_alloc []) =
   Some (Inr (Ref 0),
     \<lparr>des_src = Some 50,
      des_stream = [0x09, 0x07, 0x01, 0x0A, 0x07, 0x43] @ ArrayCollection_name
                   @ [0x09, 0x05, 0x01, 0x04, 0x01, 0x04, 0x02, 0x0A, 0x02, 0x0A, 0x04],
      des_pos = 50, des_size = 50, des_depth = 0,
      des_obj_cache = [Ref 0, Ref 1, Ref 1],
      des_str_cache = [ArrayCollection_name],
      des_trait_cache = [\<lparr>externalizable = True, dynamic = False, members = [],
                          class_name = ArrayCollection_name\<rparr>],
      des_heap = [Array [Ref 1, Ref 1, Ref 1], Array [Fixnum 1, Fixnum 2]],
      des_outside = False\<rparr>)"
  by (simp add: call_defs prim_defs heap_defs des3_defs top_defs marker_defs Let_def)

text \<open>
  C3. The code departs from the claim when the wrapped value holds a cached value of its
  own. The wrapper takes no entry of the object cache before its value is read, as every
  other object does; the value is appended once more only after all that it holds. In the
  array 09 05 01 of two elements, the first is the wrapper of the array \<open>[[]]\<close> and the second
  is the object reference of index 2, the index of the wrapped array in the stream (0 the
  outer array, 1 the wrapper, 2 the wrapped array, 3 the empty array in it). The cache of
  the deserializer holds the empty array at index 2, and the second element is read as the
  empty array, not as the wrapped array.
\<close>

theorem ArrayCollection_shifts_the_object_table:
  "des3_deserialize_rb (Suc (Suc (Suc (Suc (Suc 0))))) cm
     (Src_String ([0x09, 0x05, 0x01, 0x0A, 0x07, 0x43] @ ArrayCollection_name
                   @ [0x09, 0x03, 0x01, 0x09, 0x01, 0x01, 0x09, 0x04]))
     (des_alloc []) =
   Some (Inr (Ref 0),
     \<lparr>des_src = Some 47,
      des_stream = [0x09, 0x05, 0x01, 0x0A, 0x07, 0x43] @ ArrayCollection_name
                   @ [0x09, 0x03, 0x01, 0x09, 0x01, 0x01, 0x09, 0x04],
      des_pos = 47, des_size = 47, des_depth = 0,
      des_obj_cache = [Ref 0, Ref 1, Ref 2, Ref 1],
      des_str_cache = [ArrayCollection_name],
      des_trait_cache = [\<lparr>externalizable = True, dynamic = False, members = [],
                          class_name = ArrayCollection_name\<rparr>],
      des_heap = [Array [Ref 1, Ref 2], Array [Ref 2], Array []],
      des_outside = False\<rparr>)"
  by (simp add: call_defs prim_defs heap_defs des3_defs top_defs marker_defs Let_def)

text \<open>A wrapped value that is not cached by its own reader is in the cache once.\<close>

lemma ArrayCollection_of_an_integer:
  "des3_deserialize_rb (Suc (Suc 0)) cm
     (Src_String ([0x0A, 0x07, 0x43] @ ArrayCollection_name @ [0x04, 0x01])) (des_alloc []) =
   Some (Inr (Fixnum 1),
     \<lparr>des_src = Some 38,
      des_stream = [0x0A, 0x07, 0x43] @ ArrayCollection_name @ [0x04, 0x01],
      des_pos = 38, des_size = 38, des_depth = 0,
      des_obj_cache = [Fixnum 1],
      des_str_cache = [ArrayCollection_name],
      des_trait_cache = [\<lparr>externalizable = True, dynamic = False, members = [],
                          class_name = ArrayCollection_name\<rparr>],
      des_heap = [],
      des_outside = False\<rparr>)"
  by (simp add: call_defs prim_defs heap_defs des3_defs top_defs marker_defs Let_def)

section \<open>Containers that hold themselves\<close>

text \<open>
  With the source set, \<open>des0_deserialize\<close> reads 0A 00 00 00 01 07 00 00 as an array
  whose only element is the array itself: \<open>des0_read_array\<close> caches the array before it
  reads the elements.
\<close>

lemma des0_circular_array:
  "thn des_read_byte (des0_deserialize (Suc (Suc n)) cm)
     (des_of_string [] [0x0A, 0, 0, 0, 1, 7, 0, 0]) =
   Some (Inr (Ref 0),
         (des_of_string [] [0x0A, 0, 0, 0, 1, 7, 0, 0])
           \<lparr>des_pos := 8, des_obj_cache := [Ref 0], des_heap := [Array [Ref 0]]\<rparr>)"
  by (simp add: call_defs prim_defs heap_defs des0_defs top_defs marker_defs Let_def)

text \<open>
  C4. The code departs from the claim at the method \<open>deserialize\<close> of the AMF0
  deserializer: \<open>des0_deserialize_rb\<close> never passes its arguments to
  \<open>des_check_deserialize_args\<close> (as \<open>des3_deserialize_rb\<close> does), so the source is never
  set, and on a new deserializer every call, whatever the source given, raises the range
  error of an exhausted stream; for the stream 0A 00 00 00 01 07 00 00 no array is
  returned.
\<close>

theorem des0_deserialize_rb_ignores_its_source:
  "des0_deserialize_rb n cm (Src_String [0x0A, 0, 0, 0, 1, 7, 0, 0]) (des_alloc h) =
     Some (Inl RangeError, des_alloc h)
   \<and> des0_deserialize_rb n cm src (des_alloc h) = Some (Inl RangeError, des_alloc h)"
  by (simp add: des0_deserialize_rb_def thn_def des_read_byte_def DES_BOUNDS_CHECK_def
        des_alloc_def raise_def)

section \<open>Back-references\<close>

text \<open>
  An index that is not negative is checked as the spec says: at or past the length of the
  table the range error is raised, under it the entry is returned.
\<close>

lemma read_reference_checked:
  assumes "0 \<le> sint (signed_drop_bit 1 header)"
  shows "read_reference cache header des =
           (if sint (signed_drop_bit 1 header) \<ge> int (length cache) then Some (Inl RangeError, des)
            else Some (Inr (cache ! nat (sint (signed_drop_bit 1 header))), des))"
  using assms by (simp add: read_reference_def RARRAY_PTR_at_def call_defs Let_def)

text \<open>
  C7. The code departs from the claim for the AMF3 references: the header is read by
  \<open>des_read_int\<close>, which extends the sign of bit 28, so an index of \<open>2^27\<close> or more arrives
  as a negative \<open>int\<close>, passes the test against the length of the table and indexes the
  table before its start. On the string reference 06 C0 80 80 00 (index \<open>2^27\<close>, empty
  string cache) \<open>deserialize\<close> does not raise the range error.
\<close>

theorem negative_reference_index_is_not_refused:
  "des3_deserialize_rb (Suc n) cm (Src_String [0x06, 0xC0, 0x80, 0x80, 0x00]) (des_alloc h) =
     Some (Inl Memory_fault,
           (des_of_string h [0x06, 0xC0, 0x80, 0x80, 0x00])\<lparr>des_pos := 5, des_depth := 1\<rparr>)
   \<and> des_read_int ((des_of_string h [0x06, 0xC0, 0x80, 0x80, 0x00])\<lparr>des_pos := 1\<rparr>) =
     Some (Inr (word_of_int (- 268435456)),
           (des_of_string h [0x06, 0xC0, 0x80, 0x80, 0x00])\<lparr>des_pos := 5\<rparr>)
   \<and> sint (signed_drop_bit 1 (word_of_int (- 268435456) :: cint)) = - 134217728"
  by (simp add: call_defs prim_defs heap_defs des3_defs top_defs marker_defs Let_def)

section \<open>The string cache of AMF3\<close>

lemma des_read_int_loop_str_cache:
  "des_read_int_loop result byte_cnt byte des = Some (x, des')
     \<Longrightarrow> des_str_cache des' = des_str_cache des"
proof (induction "3 - byte_cnt" arbitrary: result byte_cnt byte des)
  case 0
  then show ?case
    by (subst (asm) des_read_int_loop.simps) (simp add: ret_def)
next
  case (Suc k)
  have ih: "des_str_cache des' = des_str_cache d"
    if "des_read_int_loop r (Suc byte_cnt) b d = Some (x, des')" for r b d
    using Suc.hyps(2) that by (intro Suc.hyps(1)) simp_all
  from Suc.prems show ?case
    by (subst (asm) des_read_int_loop.simps)
      (auto simp add: call_defs DES_BOUNDS_CHECK_def advance_def stream_at_def
        split: if_splits dest!: ih)
qed

lemma des_read_int_str_cache:
  "des_read_int des = Some (x, des') \<Longrightarrow> des_str_cache des' = des_str_cache des"
  unfolding des_read_int_def
  by (auto simp add: call_defs DES_BOUNDS_CHECK_def advance_def stream_at_def Let_def
        split: if_splits option.splits sum.splits prod.splits
        dest!: des_read_int_loop_str_cache)

lemma des_read_string_str_cache:
  "des_read_string len des = Some (x, des') \<Longrightarrow> des_str_cache des' = des_str_cache des"
  unfolding des_read_string_def
  by (auto simp add: call_defs DES_BOUNDS_CHECK_def advance_def stream_from_def
        split: if_splits)

lemma des_read_string_Str:
  "des_read_string len des = Some (Inr v, des') \<Longrightarrow> \<exists>s. v = Str s"
  unfolding des_read_string_def
  by (auto simp add: call_defs DES_BOUNDS_CHECK_def advance_def stream_from_def
        split: if_splits)

lemma des3_read_string_cache:
  assumes "des3_read_string des = Some (Inr v, des')"
  shows "\<exists>header des1. des_read_int des = Some (Inr header, des1)
       \<and> (if header AND 1 = 0 then des_str_cache des' = des_str_cache des
          else \<exists>s. v = Str s
               \<and> des_str_cache des' = (if s = [] then des_str_cache des else des_str_cache des @ [s]))"
proof -
  from assms obtain header des1 where h: "des_read_int des = Some (Inr header, des1)"
    by (auto simp add: des3_read_string_def thn_def split: option.splits sum.splits)
  have c1: "des_str_cache des1 = des_str_cache des" using h by (rule des_read_int_str_cache)
  show ?thesis
  proof (cases "header AND 1 = 0")
    case True
    with assms h c1 have "des_str_cache des' = des_str_cache des"
      by (auto simp add: des3_read_string_def call_defs read_reference_def Let_def
            split: if_splits sum.splits)
    with h True show ?thesis by simp
  next
    case False
    with assms h obtain str des2 where
      r: "des_read_string (sint (signed_drop_bit 1 header)) des1 = Some (Inr str, des2)"
      by (auto simp add: des3_read_string_def thn_def split: option.splits sum.splits)
    from r obtain s where s: "str = Str s" by (auto dest: des_read_string_Str)
    have c2: "des_str_cache des2 = des_str_cache des1" using r by (rule des_read_string_str_cache)
    from assms h False r s c1 c2
    have "v = Str s \<and> des_str_cache des' = (if s = [] then des_str_cache des else des_str_cache des @ [s])"
      by (auto simp add: des3_read_string_def call_defs push_str_cache_def split: if_splits)
    with h False show ?thesis by auto
  qed
qed

lemma ser3_write_utf8vr_empty:
  assumes "ser3_write_utf8vr P (A_string []) ser = Some (r, ser')"
  shows "ser_str_cache ser' = ser_str_cache ser \<and> ser_str_index ser' = ser_str_index ser
       \<and> (r = Inr () \<longrightarrow> ser_stream ser' = ser_stream ser @ [0x01])"
proof -
  from assms have "ser_write P [0x01] ser = Some (r, ser')"
    by (simp add: ser3_write_utf8vr_def ser_write_byte_def AMF3_EMPTY_STRING_def)
  from ser_write_cache [OF this] show ?thesis .
qed

text \<open>
  C5. The code departs from the claim in the encoder: \<open>ser3_write_utf8vr\<close> looks up and
  stores the C string at \<open>str\<close>, which ends at the first NUL, and not the \<open>len\<close> bytes of the
  string. In the array of the two strings 61 and 61 00 63 the second string, at its first
  appearance, is not added to the cache and not written inline: it is written as the
  reference 00 to the first, and the stream is read back as the array of 61 and 61. And the
  string 00 78, which is not empty, puts the empty key into the cache.
\<close>

theorem string_cache_is_keyed_by_the_C_string:
  "ser3_serialize (Suc (Suc 0)) (platform_64 f) M
     (HArray i [HString j [0x61], HString k [0x61, 0x00, 0x63]]) None (ser3_alloc (platform_64 f)) =
     Some (Inr (Some [0x09, 0x05, 0x01, 0x06, 0x03, 0x61, 0x06, 0x00]),
           (ser3_alloc (platform_64 f))
             \<lparr>ser_stream := [0x09, 0x05, 0x01, 0x06, 0x03, 0x61, 0x06, 0x00], ser_depth := - 1,
              ser_str_cache := [([0x61], 0)], ser_str_index := 1,
              ser_obj_cache := [(rb_obj_id (HArray i [HString j [0x61], HString k [0x61, 0x00, 0x63]]), 0)],
              ser_obj_index := 1\<rparr>)
   \<and> des3_deserialize_rb (Suc (Suc 0)) cm
       (Src_String [0x09, 0x05, 0x01, 0x06, 0x03, 0x61, 0x06, 0x00]) (des_alloc []) =
     Some (Inr (Ref 0),
       \<lparr>des_src = Some 8,
        des_stream = [0x09, 0x05, 0x01, 0x06, 0x03, 0x61, 0x06, 0x00],
        des_pos = 8, des_size = 8, des_depth = 0,
        des_obj_cache = [Ref 0], des_str_cache = [[0x61]], des_trait_cache = [],
        des_heap = [Array [Str [0x61], Str [0x61]]],
        des_outside = False\<rparr>)
   \<and> ser3_write_utf8vr (platform_64 f) (A_string [0x00, 0x78]) (ser3_alloc (platform_64 f)) =
     Some (Inr (),
           (ser3_alloc (platform_64 f))
             \<lparr>ser_stream := [0x05, 0x00, 0x78], ser_str_cache := [([], 0)], ser_str_index := 1\<rparr>)"
proof -
  have "ser3_serialize (Suc (Suc 0)) (platform_64 f) M
     (HArray i [HString j [0x61], HString k [0x61, 0x00, 0x63]]) None (ser3_alloc (platform_64 f)) =
     Some (Inr (Some [0x09, 0x05, 0x01, 0x06, 0x03, 0x61, 0x06, 0x00]),
           (ser3_alloc (platform_64 f))
             \<lparr>ser_stream := [0x09, 0x05, 0x01, 0x06, 0x03, 0x61, 0x06, 0x00], ser_depth := - 1,
              ser_str_cache := [([0x61], 0)], ser_str_index := 1,
              ser_obj_cache := [(rb_obj_id (HArray i [HString j [0x61], HString k [0x61, 0x00, 0x63]]), 0)],
              ser_obj_index := 1\<rparr>)"
    by (simp add: ser3_serialize_body_def ser3_write_array_def ser3_ref_or_cache_def
        ser3_write_utf8vr_def call_defs ser_defs marker_defs tmp_cases c_str_def
        to_cint_def Let_def word_sless_alt grow_size.simps)
  moreover have "des3_deserialize_rb (Suc (Suc 0)) cm
       (Src_String [0x09, 0x05, 0x01, 0x06, 0x03, 0x61, 0x06, 0x00]) (des_alloc []) =
     Some (Inr (Ref 0),
       \<lparr>des_src = Some 8,
        des_stream = [0x09, 0x05, 0x01, 0x06, 0x03, 0x61, 0x06, 0x00],
        des_pos = 8, des_size = 8, des_depth = 0,
        des_obj_cache = [Ref 0], des_str_cache = [[0x61]], des_trait_cache = [],
        des_heap = [Array [Str [0x61], Str [0x61]]],
        des_outside = False\<rparr>)"
    by (simp add: call_defs prim_defs heap_defs des3_defs top_defs marker_defs Let_def)
  moreover have "ser3_write_utf8vr (platform_64 f) (A_string [0x00, 0x78]) (ser3_alloc (platform_64 f)) =
     Some (Inr (),
           (ser3_alloc (platform_64 f))
             \<lparr>ser_stream := [0x05, 0x00, 0x78], ser_str_cache := [([], 0)], ser_str_index := 1\<rparr>)"
    by (simp add: ser3_write_utf8vr_def call_defs ser_defs marker_defs tmp_cases c_str_def
        to_cint_def Let_def word_sless_alt grow_size.simps)
  ultimately show ?thesis by (simp only: simp_thms)
qed

section \<open>The translation of case\<close>

lemma uint_byte_bounds: "0 \<le> uint (c::byte) \<and> uint c < 256"
  using uint_bounded [of c] by simp

lemma sint_byte: "sint (c::byte) = (if uint c < 128 then uint c else uint c - 256)"
proof -
  have b: "0 \<le> uint c" "uint c < 256" using uint_byte_bounds [of c] by simp_all
  then have "uint c div 128 = (if 128 \<le> uint c then 1 else 0)" by auto
  then have "bit (uint c) 7 \<longleftrightarrow> 128 \<le> uint c"
    by (simp add: bit_iff_odd)
  then show ?thesis
    using b by (simp add: sint_uint signed_take_bit_eq_take_bit_minus take_bit_int_eq_self)
qed

lemma upper_iff: "65 \<le> sint c \<and> sint c \<le> 90 \<longleftrightarrow> is_upper c"
  using uint_byte_bounds [of c]
  by (auto simp add: sint_byte is_upper_def word_le_def split: if_splits)

lemma lower_iff: "97 \<le> sint c \<and> sint c \<le> 122 \<longleftrightarrow> is_lower c"
  using uint_byte_bounds [of c]
  by (auto simp add: sint_byte is_lower_def word_le_def split: if_splits)

lemma tolower_upper: "is_upper c \<Longrightarrow> tolower c = c + 32"
  by (simp add: tolower_def upper_iff)

lemma toupper_eq: "toupper c = upper c"
  by (simp add: toupper_def upper_def lower_iff)

lemma snake_loop_spec: "snake_loop s = spec_snake s"
  by (induction s) (simp_all add: spec_snake_def upper_iff tolower_upper)

lemma snake_loop_length: "length (snake_loop s) \<le> 2 * length s"
  by (induction s) simp_all

lemma snake_loop_fits:
  "\<exists>c \<in> set s. \<not> is_upper c \<Longrightarrow> length (snake_loop s) < 2 * length s"
proof (induction s)
  case Nil
  then show ?case by simp
next
  case (Cons a s)
  show ?case
  proof (cases "is_upper a")
    case True
    then have "\<exists>c \<in> set s. \<not> is_upper c" using Cons.prems by auto
    from Cons.IH [OF this] True show ?thesis by (simp add: upper_iff)
  next
    case False
    then show ?thesis using snake_loop_length [of s] by (simp add: upper_iff)
  qed
qed

lemma c_str_no_nul: "0 \<notin> set s \<Longrightarrow> c_str s = s"
  unfolding c_str_def takeWhile_eq_all_conv by auto

lemma underscore_no_letter: "\<not> is_letter 0x5f"
  by (simp add: is_letter_def is_upper_def is_lower_def)

lemma snake_loop_all_upper:
  "\<forall>c \<in> set s. is_upper c \<Longrightarrow> length (snake_loop s) = 2 * length s"
  by (induction s) (simp_all add: upper_iff)

lemma snakecase_str_spec:
  assumes "0 \<notin> set s"
  shows "snakecase_str (Str s) =
           (if \<exists>c \<in> set s. \<not> is_upper c then Inr (Str (spec_snake s)) else Inl Memory_fault)"
proof (cases "\<exists>c \<in> set s. \<not> is_upper c")
  case True
  from snake_loop_fits [OF this] True show ?thesis
    by (simp add: snakecase_str_def c_str_no_nul [OF assms] Let_def snake_loop_spec mult.commute)
next
  case False
  then have "length (snake_loop s) = 2 * length s" by (intro snake_loop_all_upper) simp
  with False show ?thesis
    by (simp add: snakecase_str_def c_str_no_nul [OF assms] Let_def mult.commute)
qed

lemma camel_loop_spec:
  "letter_after_each_underscore s \<Longrightarrow> camel_loop False s = spec_camel s"
proof (induction s rule: spec_camel.induct)
  case 1
  show ?case by simp
next
  case (2 c cs)
  show ?case
  proof (cases "c = 0x5f")
    case False
    with 2 show ?thesis by simp
  next
    case True
    show ?thesis
    proof (cases cs)
      case Nil
      with True "2.prems" show ?thesis by simp
    next
      case (Cons x xs)
      with True "2.prems" have l: "is_letter x" "letter_after_each_underscore xs" by simp_all
      from l(1) have n: "x \<noteq> 0x5f" using underscore_no_letter by auto
      from "2.IH"(1) [OF True Cons l(1) l(2)] True Cons l(1) n show ?thesis
        by (simp add: toupper_eq)
    qed
  qed
qed

lemma camelcase_str_spec:
  assumes "0 \<notin> set s" and "letter_after_each_underscore s"
  shows "camelcase_str sz (A_string s) =
           (if length (spec_camel s) < sz then Inr (A_string (spec_camel s))
            else Inl Memory_fault)"
  using camel_loop_spec [OF assms(2)]
  by (auto simp add: camelcase_str_def c_str_no_nul [OF assms(1)] Let_def)


text \<open>
  C8. The code departs from the claim in \<open>camelcase_str\<close>: its buffer \<open>camel_str\<close> has
  \<open>sizeof(snake_str)\<close> bytes, the size of a \<open>VALUE\<close>, so a key whose camel case form has that
  many bytes or more is written past the end of the buffer. On a platform of 8-byte values
  the key \<open>first_name\<close>, which the rule turns into \<open>firstName\<close>, overflows it, in the hash
  iterators of both serializers; \<open>my_key\<close> fits and becomes \<open>myKey\<close>, and the decoder turns
  \<open>firstName\<close> into \<open>first_name\<close>.
\<close>

theorem camelcase_str_overflows_its_buffer:
  "spec_camel (map of_char ''first_name'') = map of_char ''firstName''
   \<and> camelcase_str (sizeof_VALUE (platform_64 f)) (A_string (map of_char ''first_name'')) =
       Inl Memory_fault
   \<and> ser0_hash_iter (platform_64 f) serialize True (HString i (map of_char ''first_name''), v) ser =
       Some (Inl Memory_fault, ser)
   \<and> ser3_hash_iter (platform_64 f) serialize [] True (HString i (map of_char ''first_name''), v) ser =
       Some (Inl Memory_fault, ser)
   \<and> camelcase_str (sizeof_VALUE (platform_64 f)) (A_string (map of_char ''my_key'')) =
       Inr (A_string (map of_char ''myKey''))
   \<and> snakecase_str (Str (map of_char ''firstName'')) = Inr (Str (map of_char ''first_name''))"
  by (simp add: camelcase_str_def c_str_def is_letter_def is_upper_def is_lower_def upper_def
      toupper_def tolower_def snakecase_str_def ser0_hash_iter_def ser3_hash_iter_def call_defs
      platform_64_def Let_def)

text \<open>
  Two more departures, on keys of other shapes: an \<open>_\<close> that no letter follows is dropped
  by \<open>camelcase_str\<close>, and \<open>snakecase_str\<close>, whose buffer has twice the length of the key,
  has no room for the final NUL when every byte of the key is an upper-case letter.
\<close>

lemma case_translation_on_other_keys:
  "spec_camel (map of_char ''a_1'') = map of_char ''a_1''"
  "camelcase_str 8 (A_string (map of_char ''a_1'')) = Inr (A_string (map of_char ''a1''))"
  "spec_snake (map of_char ''ID'') = map of_char ''_i_d''"
  "snakecase_str (Str (map of_char ''ID'')) = Inl Memory_fault"
  by (simp_all add: camelcase_str_def c_str_def is_letter_def is_upper_def is_lower_def upper_def
      toupper_def tolower_def snakecase_str_def spec_snake_def Let_def)

section \<open>The serializer session\<close>

lemma ser0_serialize_finalized:
  "ser_depth ser = - 1 \<Longrightarrow>
   ser0_serialize (Suc n) P M obj opts ser = Some (Inr None, ser\<lparr>serialize_opts := opts\<rparr>)"
  by (simp add: ser0_serialize_body_def call_defs Let_def)

lemma ser3_serialize_finalized:
  "ser_depth ser = - 1 \<Longrightarrow>
   ser3_serialize (Suc n) P M obj opts ser = Some (Inr None, ser\<lparr>serialize_opts := opts\<rparr>)"
  by (simp add: ser3_serialize_body_def call_defs Let_def)

lemma ser0_serialize_returns_string:
  "ser0_serialize n P M obj opts ser = Some (Inr (Some bytes), ser') \<Longrightarrow>
   ser_depth ser' = - 1 \<and> bytes = ser_stream ser'"
  by (cases n)
     (auto simp add: ser0_serialize_body_def call_defs Let_def
           split: if_splits option.splits sum.splits prod.splits)

lemma ser3_serialize_returns_string:
  "ser3_serialize n P M obj opts ser = Some (Inr (Some bytes), ser') \<Longrightarrow>
   ser_depth ser' = - 1 \<and> bytes = ser_stream ser'"
  by (cases n)
     (auto simp add: ser3_serialize_body_def call_defs Let_def
           split: if_splits option.splits sum.splits prod.splits)

lemma later_calls_ser0:
  "ser_depth ser = - 1 \<Longrightarrow>
   \<exists>ser''. later_calls (ser0_serialize (Suc m) P M) calls ser = Some (Inr (), ser'')
         \<and> ser_stream ser'' = ser_stream ser \<and> ser_depth ser'' = - 1"
proof (induction calls arbitrary: ser)
  case Nil
  then show ?case by (simp add: later_calls_def ret_def)
next
  case (Cons c calls)
  let ?ser1 = "ser\<lparr>serialize_opts := snd c\<rparr>"
  have "ser_depth ?ser1 = - 1" using Cons.prems by simp
  from Cons.IH [OF this] obtain ser'' where
    "later_calls (ser0_serialize (Suc m) P M) calls ?ser1 = Some (Inr (), ser'')"
    "ser_stream ser'' = ser_stream ?ser1" "ser_depth ser'' = - 1"
    by blast
  then show ?case
    using Cons.prems
    by (simp add: later_calls_def thn_def ret_def ser0_serialize_finalized del: ser0_serialize.simps)
qed

lemma later_calls_ser3:
  "ser_depth ser = - 1 \<Longrightarrow>
   \<exists>ser''. later_calls (ser3_serialize (Suc m) P M) calls ser = Some (Inr (), ser'')
         \<and> ser_stream ser'' = ser_stream ser \<and> ser_depth ser'' = - 1"
proof (induction calls arbitrary: ser)
  case Nil
  then show ?case by (simp add: later_calls_def ret_def)
next
  case (Cons c calls)
  let ?ser1 = "ser\<lparr>serialize_opts := snd c\<rparr>"
  have "ser_depth ?ser1 = - 1" using Cons.prems by simp
  from Cons.IH [OF this] obtain ser'' where
    "later_calls (ser3_serialize (Suc m) P M) calls ?ser1 = Some (Inr (), ser'')"
    "ser_stream ser'' = ser_stream ?ser1" "ser_depth ser'' = - 1"
    by blast
  then show ?case
    using Cons.prems
    by (simp add: later_calls_def thn_def ret_def ser3_serialize_finalized del: ser3_serialize.simps)
qed

text \<open>
  C9. When a call of \<open>serialize\<close> (AMF0 or AMF3) returns the stream as a string, the
  session is left with \<open>depth = -1\<close> and the string is the whole stream. From then on
  every call of \<open>serialize\<close> on the session returns nil at once, changing nothing but the
  stored options: after any number of later calls the stream is the same and the depth
  is still \<open>-1\<close>.
\<close>

theorem finalized_session_is_a_sink:
  "(ser0_serialize n P M obj opts ser = Some (Inr (Some bytes), ser') \<longrightarrow>
      ser_depth ser' = - 1 \<and> bytes = ser_stream ser'
    \<and> (\<forall>m obj2 opts2.
          ser0_serialize (Suc m) P M obj2 opts2 ser' =
            Some (Inr None, ser'\<lparr>serialize_opts := opts2\<rparr>))
    \<and> (\<forall>m calls. \<exists>ser''.
          later_calls (ser0_serialize (Suc m) P M) calls ser' = Some (Inr (), ser'')
          \<and> ser_stream ser'' = ser_stream ser' \<and> ser_depth ser'' = - 1))
   \<and> (ser3_serialize n P M obj opts ser = Some (Inr (Some bytes), ser') \<longrightarrow>
      ser_depth ser' = - 1 \<and> bytes = ser_stream ser'
    \<and> (\<forall>m obj2 opts2.
          ser3_serialize (Suc m) P M obj2 opts2 ser' =
            Some (Inr None, ser'\<lparr>serialize_opts := opts2\<rparr>))
    \<and> (\<forall>m calls. \<exists>ser''.
          later_calls (ser3_serialize (Suc m) P M) calls ser' = Some (Inr (), ser'')
          \<and> ser_stream ser'' = ser_stream ser' \<and> ser_depth ser'' = - 1))"
proof (intro conjI impI allI)
  assume a: "ser0_serialize n P M obj opts ser = Some (Inr (Some bytes), ser')"
  from ser0_serialize_returns_string [OF a]
  show d: "ser_depth ser' = - 1" and "bytes = ser_stream ser'" by simp_all
  show "ser0_serialize (Suc m) P M obj2 opts2 ser' = Some (Inr None, ser'\<lparr>serialize_opts := opts2\<rparr>)"
    for m obj2 opts2
    using d by (rule ser0_serialize_finalized)
  show "\<exists>ser''. later_calls (ser0_serialize (Suc m) P M) calls ser' = Some (Inr (), ser'')
          \<and> ser_stream ser'' = ser_stream ser' \<and> ser_depth ser'' = - 1" for m calls
    using d by (rule later_calls_ser0)
next
  assume a: "ser3_serialize n P M obj opts ser = Some (Inr (Some bytes), ser')"
  from ser3_serialize_returns_string [OF a]
  show d: "ser_depth ser' = - 1" and "bytes = ser_stream ser'" by simp_all
  show "ser3_serialize (Suc m) P M obj2 opts2 ser' = Some (Inr None, ser'\<lparr>serialize_opts := opts2\<rparr>)"
    for m obj2 opts2
    using d by (rule ser3_serialize_finalized)
  show "\<exists>ser''. later_calls (ser3_serialize (Suc m) P M) calls ser' = Some (Inr (), ser'')
          \<and> ser_stream ser'' = ser_stream ser' \<and> ser_depth ser'' = - 1" for m calls
    using d by (rule later_calls_ser3)
qed

text \<open>
  The witness: nil serialized on a new AMF0 and on a new AMF3 session gives the streams
  05 and 01; a second call, here with true, returns nil and leaves the stream as it is.
\<close>

lemma serialize_nil:
  "ser0_serialize (Suc 0) (platform_64 f) M HNil None (ser0_alloc (platform_64 f)) =
     Some (Inr (Some [0x05]), (ser0_alloc (platform_64 f))\<lparr>ser_stream := [0x05], ser_depth := - 1\<rparr>)"
  "ser3_serialize (Suc 0) (platform_64 f) M HNil None (ser3_alloc (platform_64 f)) =
     Some (Inr (Some [0x01]), (ser3_alloc (platform_64 f))\<lparr>ser_stream := [0x01], ser_depth := - 1\<rparr>)"
  by (simp_all add: ser0_serialize_body_def ser3_serialize_body_def call_defs ser_defs marker_defs
        Let_def grow_size.simps)

theorem finalized_session_is_a_sink_witness:
  "\<forall>f M.
     ser0_serialize (Suc 0) (platform_64 f) M HNil None (ser0_alloc (platform_64 f)) =
       Some (Inr (Some [0x05]), (ser0_alloc (platform_64 f))\<lparr>ser_stream := [0x05], ser_depth := - 1\<rparr>)
   \<and> ser0_serialize (Suc 0) (platform_64 f) M HTrue None
       ((ser0_alloc (platform_64 f))\<lparr>ser_stream := [0x05], ser_depth := - 1\<rparr>) =
       Some (Inr None, (ser0_alloc (platform_64 f))\<lparr>ser_stream := [0x05], ser_depth := - 1\<rparr>)
   \<and> ser3_serialize (Suc 0) (platform_64 f) M HNil None (ser3_alloc (platform_64 f)) =
       Some (Inr (Some [0x01]), (ser3_alloc (platform_64 f))\<lparr>ser_stream := [0x01], ser_depth := - 1\<rparr>)
   \<and> ser3_serialize (Suc 0) (platform_64 f) M HTrue None
       ((ser3_alloc (platform_64 f))\<lparr>ser_stream := [0x01], ser_depth := - 1\<rparr>) =
       Some (Inr None, (ser3_alloc (platform_64 f))\<lparr>ser_stream := [0x01], ser_depth := - 1\<rparr>)"
proof (intro allI)
  fix f :: "int \<Rightarrow> double" and M :: ser_mapper
  let ?P = "platform_64 f"
  let ?s0 = "(ser0_alloc ?P)\<lparr>ser_stream := [0x05], ser_depth := - 1\<rparr>"
  let ?s3 = "(ser3_alloc ?P)\<lparr>ser_stream := [0x01], ser_depth := - 1\<rparr>"
  note t = finalized_session_is_a_sink [of "Suc 0" ?P M HNil None]
  have a0: "ser0_serialize (Suc 0) ?P M HTrue None ?s0 = Some (Inr None, ?s0\<lparr>serialize_opts := None\<rparr>)"
    using t [of "ser0_alloc ?P" "[0x05]" ?s0] serialize_nil(1) [of f M] by blast
  have a3: "ser3_serialize (Suc 0) ?P M HTrue None ?s3 = Some (Inr None, ?s3\<lparr>serialize_opts := None\<rparr>)"
    using t [of "ser3_alloc ?P" "[0x01]" ?s3] serialize_nil(2) [of f M] by blast
  have e0: "?s0\<lparr>serialize_opts := None\<rparr> = ?s0" by (simp add: ser0_alloc_def)
  have e3: "?s3\<lparr>serialize_opts := None\<rparr> = ?s3" by (simp add: ser3_alloc_def)
  show "ser0_serialize (Suc 0) ?P M HNil None (ser0_alloc ?P) = Some (Inr (Some [0x05]), ?s0)
      \<and> ser0_serialize (Suc 0) ?P M HTrue None ?s0 = Some (Inr None, ?s0)
      \<and> ser3_serialize (Suc 0) ?P M HNil None (ser3_alloc ?P) = Some (Inr (Some [0x01]), ?s3)
      \<and> ser3_serialize (Suc 0) ?P M HTrue None ?s3 = Some (Inr None, ?s3)"
    using a0 a3 serialize_nil [of f M] by (simp only: e0 e3 simp_thms)
qed

text \<open>
  C10. A regular expression, or an object of a C extension of a class the serializers
  do not name, is a value with no \<open>encode_amf\<close> that no branch of \<open>ser0_serialize\<close> or
  \<open>ser3_serialize\<close> takes: on a new session the call writes nothing, returns normally,
  and its result is the empty string.
\<close>

theorem unmatched_kind_serializes_to_nothing:
  "ser0_serialize (Suc n) P M (HRegexp i) opts (ser0_alloc P) =
     Some (Inr (Some []), (ser0_alloc P)\<lparr>ser_depth := - 1, serialize_opts := opts\<rparr>)
   \<and> ser3_serialize (Suc n) P M (HRegexp i) opts (ser3_alloc P) =
     Some (Inr (Some []), (ser3_alloc P)\<lparr>ser_depth := - 1, serialize_opts := opts\<rparr>)
   \<and> ser0_serialize (Suc n) P M (HData i) opts (ser0_alloc P) =
     Some (Inr (Some []), (ser0_alloc P)\<lparr>ser_depth := - 1, serialize_opts := opts\<rparr>)
   \<and> ser3_serialize (Suc n) P M (HData i) opts (ser3_alloc P) =
     Some (Inr (Some []), (ser3_alloc P)\<lparr>ser_depth := - 1, serialize_opts := opts\<rparr>)
   \<and> ser_stream (ser0_alloc P) = [] \<and> ser_stream (ser3_alloc P) = []"
  by (simp add: ser0_serialize_body_def ser3_serialize_body_def call_defs ser_defs Let_def)

end
